theory Spec2Isabelle
  imports Main
begin

text \<open>
  The command parser and the message checks of \<open>server/chat.ts\<close>: the filter chain
  \<open>Chat.filter\<close>, the validation pipeline \<open>canTalk\<close>, the broadcast controller
  (\<open>canBroadcast\<close>, \<open>runBroadcast\<close>), the resolver \<open>parseCommand\<close> and the dispatcher
  \<open>parse\<close> of \<open>CommandContext\<close>. Users, rooms, configuration and the handlers of the
  commands are collaborators: the model holds of them what this code reads.
\<close>

section \<open>JavaScript strings\<close>

text \<open>
  A JavaScript string is a sequence of UTF-16 code units; \<open>length\<close> counts code units.
  A code unit is modelled by its number, so the character U+FDFD is \<open>65021\<close>.
  \<open>js\<close> turns an ASCII literal into such a string.
\<close>

type_synonym jsstring = "nat list"

definition js :: "string \<Rightarrow> jsstring" where
  "js s = map of_char s"


text \<open>
  \<open>String.prototype.toLowerCase\<close> follows the Unicode case tables of the host and is
  not modelled: it is a field of the record \<open>server\<close> below. \<open>ascii_lower\<close> agrees with
  it on ASCII text and instantiates it in the examples.
\<close>

definition ascii_lower :: "jsstring \<Rightarrow> jsstring" where
  "ascii_lower s = map (\<lambda>c. if 65 \<le> c \<and> c \<le> 90 then c + 32 else c) s"

definition charAt :: "jsstring \<Rightarrow> nat \<Rightarrow> jsstring" where
  "charAt s i = (if i < length s then [s ! i] else [])"

definition startsWith :: "jsstring \<Rightarrow> jsstring \<Rightarrow> bool" where
  "startsWith s p = (take (length p) s = p)"

definition endsWith :: "jsstring \<Rightarrow> jsstring \<Rightarrow> bool" where
  "endsWith s p = (length p \<le> length s \<and> drop (length s - length p) s = p)"

fun js_includes :: "jsstring \<Rightarrow> jsstring \<Rightarrow> bool" where
  "js_includes [] needle = (needle = [])"
| "js_includes (c # cs) needle = (startsWith (c # cs) needle \<or> js_includes cs needle)"

text \<open>\<open>indexOf\<close> of a single character: the first position, or \<open>-1\<close>.\<close>

fun indexOf :: "jsstring \<Rightarrow> nat \<Rightarrow> int" where
  "indexOf [] c = -1"
| "indexOf (x # xs) c =
     (if x = c then 0 else (let i = indexOf xs c in if i < 0 then -1 else i + 1))"

text \<open>\<open>s.slice(0, -k)\<close>: the string without its last \<open>k\<close> code units.\<close>

definition slice_end :: "jsstring \<Rightarrow> nat \<Rightarrow> jsstring" where
  "slice_end s k = take (length s - k) s"

text \<open>White space and line terminators, as \<open>trim\<close> and the class \<open>\s\<close> take them.\<close>

definition is_space :: "nat \<Rightarrow> bool" where
  "is_space c = (c \<in> {9, 10, 11, 12, 13, 32, 160, 5760, 8232, 8233, 8239, 8287, 12288, 65279}
     \<or> (8192 \<le> c \<and> c \<le> 8202))"

definition trim :: "jsstring \<Rightarrow> jsstring" where
  "trim s = rev (dropWhile is_space (rev (dropWhile is_space s)))"

definition is_upper :: "nat \<Rightarrow> bool" where
  "is_upper c = (65 \<le> c \<and> c \<le> 90)"

definition is_lower :: "nat \<Rightarrow> bool" where
  "is_lower c = (97 \<le> c \<and> c \<le> 122)"

definition is_digit :: "nat \<Rightarrow> bool" where
  "is_digit c = (48 \<le> c \<and> c \<le> 57)"

definition is_alnum :: "nat \<Rightarrow> bool" where
  "is_alnum c = (is_upper c \<or> is_lower c \<or> is_digit c)"

text \<open>\<open>/[P]{n,}/.test(s)\<close>: some run of at least \<open>n\<close> consecutive characters of a class.\<close>

fun has_run_from :: "(nat \<Rightarrow> bool) \<Rightarrow> nat \<Rightarrow> nat \<Rightarrow> jsstring \<Rightarrow> bool" where
  "has_run_from P n k [] = False"
| "has_run_from P n k (c # cs) =
     (if P c then (n \<le> Suc k \<or> has_run_from P n (Suc k) cs) else has_run_from P n 0 cs)"

definition has_run :: "(nat \<Rightarrow> bool) \<Rightarrow> nat \<Rightarrow> jsstring \<Rightarrow> bool" where
  "has_run P n s = has_run_from P n 0 s"

text \<open>\<open>s.replace(/[P]{n,}/g, '')\<close>: every maximal run of at least \<open>n\<close> is removed.\<close>

fun strip_runs_from :: "(nat \<Rightarrow> bool) \<Rightarrow> nat \<Rightarrow> jsstring \<Rightarrow> jsstring \<Rightarrow> jsstring" where
  "strip_runs_from P n run [] = (if n \<le> length run then [] else run)"
| "strip_runs_from P n run (c # cs) =
     (if P c then strip_runs_from P n (run @ [c]) cs
      else (if n \<le> length run then [] else run) @ c # strip_runs_from P n [] cs)"

definition strip_runs :: "(nat \<Rightarrow> bool) \<Rightarrow> nat \<Rightarrow> jsstring \<Rightarrow> jsstring" where
  "strip_runs P n s = strip_runs_from P n [] s"

text \<open>\<open>s.replace(/[P]+/g, ' ')\<close>: every run becomes one space.\<close>

fun collapse_runs_from :: "(nat \<Rightarrow> bool) \<Rightarrow> bool \<Rightarrow> jsstring \<Rightarrow> jsstring" where
  "collapse_runs_from P inRun [] = []"
| "collapse_runs_from P inRun (c # cs) =
     (if P c then (if inRun then collapse_runs_from P True cs else 32 # collapse_runs_from P True cs)
      else c # collapse_runs_from P False cs)"

text \<open>\<open>s.replace(/[P]+/, '')\<close>, without the \<open>g\<close> flag: only the first run is removed.\<close>

definition remove_first_run :: "(nat \<Rightarrow> bool) \<Rightarrow> jsstring \<Rightarrow> jsstring" where
  "remove_first_run P s = takeWhile (\<lambda>c. \<not> P c) s @ dropWhile P (dropWhile (\<lambda>c. \<not> P c) s)"

section \<open>The plugin filter chain: \<open>Chat.filter\<close>\<close>

text \<open>
  What a \<open>ChatFilter\<close> may return: \<open>false\<close>, \<open>null\<close>, \<open>undefined\<close> or a string.
  A filter is called with the in-flight message and the original message; the context,
  user, room, connection and target user are the same for every filter of one run, so a
  filter of the model is already applied to them.
\<close>

datatype filter_output = OutFalse | OutNull | OutUndefined | OutString jsstring

type_synonym chat_filter = "jsstring \<Rightarrow> jsstring \<Rightarrow> filter_output"

text \<open>
  The \<open>for\<close> loop of \<open>Chat.filter\<close>. The first component is the value returned
  (\<open>None\<close> is \<open>null\<close>); the second lists, in order, the in-flight text each filter that
  was called received. \<open>!output && output !== undefined\<close> holds of \<open>null\<close> and of the
  empty string, which are returned as they are.
\<close>

fun filter_loop :: "chat_filter list \<Rightarrow> jsstring \<Rightarrow> jsstring \<Rightarrow> jsstring option \<times> jsstring list" where
  "filter_loop [] originalMessage message = (Some message, [])"
| "filter_loop (curFilter # rest) originalMessage message =
     (case curFilter message originalMessage of
        OutFalse \<Rightarrow> (None, [message])
      | OutNull \<Rightarrow> (None, [message])
      | OutString output \<Rightarrow>
          if output = [] then (Some [], [message])
          else (case filter_loop rest originalMessage output of (r, calls) \<Rightarrow> (r, message # calls))
      | OutUndefined \<Rightarrow>
          (case filter_loop rest originalMessage message of (r, calls) \<Rightarrow> (r, message # calls)))"

definition Chat_filter :: "chat_filter list \<Rightarrow> jsstring \<Rightarrow> jsstring option" where
  "Chat_filter filters message = fst (filter_loop filters message message)"

definition filter_calls :: "chat_filter list \<Rightarrow> jsstring \<Rightarrow> jsstring list" where
  "filter_calls filters message = snd (filter_loop filters message message)"

text \<open>JavaScript truthiness of what \<open>Chat.filter\<close> and \<open>canTalk\<close> return.\<close>

definition truthy :: "jsstring option \<Rightarrow> bool" where
  "truthy r = (case r of None \<Rightarrow> False | Some s \<Rightarrow> s \<noteq> [])"

text \<open>Filters used in the examples.\<close>

definition suppress_filter :: chat_filter where
  "suppress_filter message originalMessage = OutFalse"

definition blank_filter :: chat_filter where
  "blank_filter message originalMessage = OutString []"

definition shout_filter :: chat_filter where
  "shout_filter message originalMessage = OutString (message @ js ''!'')"

definition no_opinion_filter :: chat_filter where
  "no_opinion_filter message originalMessage = OutUndefined"


section \<open>Data model\<close>

text \<open>
  A command handler is a function object; the model keeps its identity and the
  \<open>broadcastable\<close> annotation that \<open>run\<close> reads.
\<close>

record handler =
  h_id :: nat
  h_broadcastable :: bool

text \<open>
  What a property of the command table can hold. \<open>Obj isArray props\<close> is an object with
  the properties that \<open>in\<close> and \<open>[]\<close> find on it, own or inherited; \<open>isArray\<close> is the
  answer of \<open>Array.isArray\<close>, so a nested command table is \<open>Obj False\<close> and an array of
  help strings is \<open>Obj True\<close>. \<open>Prim truthy\<close> is any other value, with its truthiness.
\<close>

datatype jsval = Fn handler | Str jsstring | Obj bool "(jsstring \<times> jsval) list" | Prim bool

text \<open>The permissions this code asks of \<open>user.can\<close>.\<close>

datatype perm = Bypassall | Ignorelimits | Show | Mute | Lock

text \<open>\<open>settings.blockPMs\<close>: \<open>false\<close>, \<open>true\<close>, or the lowest rank still let through.\<close>

datatype blockpms = BlockNone | BlockAll | BlockBelow jsstring

record user =
  u_id :: jsstring
  u_name :: jsstring
  u_named :: bool
  u_namelocked :: bool
  u_locked :: bool
  u_autoconfirmed :: bool
  u_userMessage :: jsstring
  u_statusType :: jsstring
  u_blockPMs :: blockpms
  u_lastMessage :: jsstring
  u_lastMessageTime :: int
  u_can :: "perm \<Rightarrow> jsstring option \<Rightarrow> bool"

text \<open>
  A room, with the settings and collaborators this code reads. \<open>r_modchat\<close> is empty and
  \<open>r_slowchat\<close> is \<open>0\<close> when the setting is off. \<open>r_banwordRegex\<close> holds the compiled
  ban-word test of the room followed by those of its ancestors (\<open>room.parent\<close>); a room
  without ban-words contributes the test that never matches. \<open>r_onChatMessage\<close> is the
  hook of the room's game, \<open>None\<close> when there is none; it answers \<open>Some\<close> when it
  returns a string.
\<close>

record room =
  r_roomid :: jsstring
  r_users :: "jsstring list"
  r_isHelp :: bool
  r_isMuted :: "jsstring \<Rightarrow> bool"
  r_modchat :: jsstring
  r_auth_atLeast :: "jsstring \<Rightarrow> jsstring \<Rightarrow> bool"
  r_filterStretching :: bool
  r_filterCaps :: bool
  r_filterEmojis :: bool
  r_slowchat :: int
  r_banwordRegex :: "(jsstring \<Rightarrow> bool) list"
  r_onChatMessage :: "(jsstring \<Rightarrow> jsstring \<Rightarrow> jsstring option) option"
  r_highTraffic :: bool
  r_lastBroadcast :: jsstring
  r_lastBroadcastTime :: int

text \<open>
  \<open>CommandContext\<close>. The user and the room are references in the source; the model
  carries their current state in the context and returns it updated.
\<close>

record command_context =
  c_user :: user
  c_room :: "room option"
  c_pmTarget :: "user option"
  c_message :: jsstring
  c_cmd :: jsstring
  c_cmdToken :: jsstring
  c_target :: jsstring
  c_fullCmd :: jsstring
  c_handler :: "jsval option"
  c_isQuiet :: bool
  c_broadcasting :: bool
  c_broadcastToRoom :: bool
  c_broadcastMessage :: jsstring
  c_recursionDepth :: nat

text \<open>
  A thrown \<open>Error\<close>: its \<open>name\<close> and its \<open>message\<close>. What a handler, \<open>canTalk\<close> or a
  settled promise hands to \<open>parse\<close>: a plain value or a promise, which is modelled by
  how it settles.
\<close>

record js_error =
  e_name :: jsstring
  e_message :: jsstring

datatype plain = PUndefined | PNull | PBool bool | PString jsstring

datatype promise = Resolves plain | Rejects js_error

datatype ret = Plain plain | Promise promise

text \<open>
  A call of a handler either returns or throws; the handler may have changed the
  context it ran in (\<open>this\<close>), for instance by \<open>runBroadcast\<close>. What the handler itself
  sends is its own business and not recorded.
\<close>

datatype invocation = Returned ret command_context | Threw js_error command_context

text \<open>
  What is process-wide: \<open>Chat.commands\<close>, \<open>Chat.filters\<close>, the parts of \<open>Config\<close> and
  \<open>Users\<close> that are read, and what the host or files outside this code compute:
  \<open>toLowerCase\<close>, \<open>toID\<close> (\<open>Dex.toID\<close>), the regular expressions with back-references
  or Unicode properties (\<open>rx_stretching n\<close> is \<open>/(.+?)\1{n,}/i\<close>, \<open>rx_emoji\<close> is
  \<open>EMOJI_REGEX\<close>) and the link test built on \<open>Chat.linkRegex\<close>. \<open>call_handler\<close> is
  \<open>handler.call(this, ...)\<close>, the business logic of the commands.
\<close>

record server =
  toLowerCase :: "jsstring \<Rightarrow> jsstring"
  toID :: "jsstring \<Rightarrow> jsstring"
  Chat_commands :: "(jsstring \<times> jsval) list"
  Chat_filters :: "chat_filter list"
  Config_groups :: "(jsstring \<times> jsstring) list"
  Config_pmmodchat :: jsstring
  Config_restrictLinks :: bool
  globalAuth_atLeast :: "jsstring \<Rightarrow> jsstring \<Rightarrow> bool"
  hasPermission_promote :: "jsstring \<Rightarrow> jsstring \<Rightarrow> bool"
  rx_stretching :: "nat \<Rightarrow> jsstring \<Rightarrow> bool"
  rx_emoji :: "jsstring \<Rightarrow> bool"
  allLinksWhitelisted :: "jsstring \<Rightarrow> bool"
  call_handler :: "handler \<Rightarrow> command_context \<Rightarrow> invocation"

definition MAX_MESSAGE_LENGTH :: nat where
  "MAX_MESSAGE_LENGTH = 300"

definition BROADCAST_COOLDOWN :: int where
  "BROADCAST_COOLDOWN = 20 * 1000"

definition MESSAGE_COOLDOWN :: int where
  "MESSAGE_COOLDOWN = 5 * 60 * 1000"

definition MAX_PARSE_RECURSION :: nat where
  "MAX_PARSE_RECURSION = 10"

definition VALID_COMMAND_TOKENS :: jsstring where
  "VALID_COMMAND_TOKENS = js ''/!''"

definition BROADCAST_TOKEN :: jsstring where
  "BROADCAST_TOKEN = js ''!''"

section \<open>The validation pipeline: \<open>canTalk\<close>\<close>

text \<open>
  A \<open>return null\<close> of \<open>canTalk\<close> comes with a reply that tells the reason (the hook of
  a game may reject in silence); the model returns the reason in place of the translated
  text.
\<close>

datatype rejection =
    NoName | LockedChat | Muted | Modchat | NotInRoom
  | LockedPM | TargetLocked | PMModchat | PMBlocked | PMBlocking
  | Blank | TooLong | BannedCharacters | LinksRestricted | BadFormat | Slowchat
  | BanwordName | BanwordStatus | BanwordMessage | GameFilter | Duplicate | HighTraffic

text \<open>
  \<open>Reject\<close> is \<open>return null\<close> after a reply, \<open>PermissionOnly\<close> is \<open>return true\<close> (no
  message was given), \<open>Says\<close> is the message returned, or what \<open>Chat.filter\<close> returned.
\<close>

datatype talk_result = Reject rejection | PermissionOnly | Says "jsstring option"

definition checkFormat :: "server \<Rightarrow> room option \<Rightarrow> user \<Rightarrow> jsstring \<Rightarrow> bool" where
  "checkFormat srv room usr message =
     (case room of None \<Rightarrow> True | Some r \<Rightarrow>
        if \<not> r_filterStretching r \<and> \<not> r_filterCaps r \<and> \<not> r_filterEmojis r then True
        else if u_can usr Bypassall None then True
        else if r_filterStretching r \<and> rx_stretching srv 5 (u_name usr) then False
        else if r_filterCaps r \<and> has_run (\<lambda>c. is_upper c \<or> is_space c) 6 (u_name usr) then False
        else if r_filterEmojis r \<and> rx_emoji srv (u_name usr) then False
        else
          (let message' = collapse_runs_from
                 (\<lambda>c. c = 32 \<or> c = 0 \<or> (8203 \<le> c \<and> c \<le> 8207)) False (trim message)
           in if r_filterStretching r \<and> rx_stretching srv 7 message' then False
              else if r_filterCaps r \<and> has_run (\<lambda>c. is_upper c \<or> is_space c) 18 message' then False
              else if r_filterEmojis r \<and> rx_emoji srv message' then False
              else True))"

definition checkSlowchat :: "int \<Rightarrow> room option \<Rightarrow> user \<Rightarrow> bool" where
  "checkSlowchat now room usr =
     (case room of None \<Rightarrow> True | Some r \<Rightarrow>
        if r_slowchat r = 0 then True
        else if u_can usr Show (Some (r_roomid r)) then True
        else if now - u_lastMessageTime usr < r_slowchat r * 1000 then False
        else True)"

text \<open>\<open>checkBanwords\<close> walks the room and its ancestors.\<close>

fun banwords_ok :: "(jsstring \<Rightarrow> bool) list \<Rightarrow> jsstring \<Rightarrow> bool" where
  "banwords_ok [] message = True"
| "banwords_ok (banwordRegex # parents) message =
     (if message = [] then True
      else if banwordRegex message then False
      else banwords_ok parents message)"

definition checkBanwords :: "room option \<Rightarrow> jsstring \<Rightarrow> bool" where
  "checkBanwords room message =
     (case room of None \<Rightarrow> True | Some r \<Rightarrow> banwords_ok (r_banwordRegex r) message)"

definition checkGameFilter :: "command_context \<Rightarrow> jsstring option" where
  "checkGameFilter ctx =
     (case c_room ctx of None \<Rightarrow> None | Some r \<Rightarrow>
        (case r_onChatMessage r of None \<Rightarrow> None
         | Some onChatMessage \<Rightarrow> onChatMessage (c_message ctx) (u_id (c_user ctx))))"

text \<open>The length that is compared with the ceiling: \<open>U+FDFD\<close> counts ten more.\<close>

definition weighted_length :: "jsstring \<Rightarrow> nat" where
  "weighted_length message = length message + 10 * length (filter (\<lambda>c. c = 65021) message)"

definition is_zalgo :: "nat \<Rightarrow> bool" where
  "is_zalgo c = ((768 \<le> c \<and> c \<le> 879) \<or> (1155 \<le> c \<and> c \<le> 1161) \<or> (1552 \<le> c \<and> c \<le> 1557)
     \<or> (1611 \<le> c \<and> c \<le> 1631) \<or> c = 1648 \<or> (1750 \<le> c \<and> c \<le> 1756) \<or> (1759 \<le> c \<and> c \<le> 1773)
     \<or> c = 3633 \<or> (3636 \<le> c \<and> c \<le> 3642) \<or> (3655 \<le> c \<and> c \<le> 3662))"

definition is_banned_char :: "nat \<Rightarrow> bool" where
  "is_banned_char c = (c = 4447 \<or> c = 4448 \<or> (9115 \<le> c \<and> c \<le> 9145))"

text \<open>The checks on the speaker's standing, inside \<open>if (!user.can('bypassall'))\<close>.\<close>

definition standing_in_room :: "user \<Rightarrow> room \<Rightarrow> rejection option" where
  "standing_in_room usr r =
     (if (u_namelocked usr \<or> u_locked usr) \<and> \<not> r_isHelp r then Some LockedChat
      else if r_isMuted r (u_id usr) then Some Muted
      else if r_modchat r \<noteq> [] \<and> \<not> r_auth_atLeast r (u_id usr) (r_modchat r) then Some Modchat
      else if u_id usr \<notin> set (r_users r) then Some NotInRoom
      else None)"

definition blocks_PMs_from :: "server \<Rightarrow> user \<Rightarrow> user \<Rightarrow> bool" where
  "blocks_PMs_from srv blocker sender =
     (case u_blockPMs blocker of
        BlockNone \<Rightarrow> False
      | BlockAll \<Rightarrow> True
      | BlockBelow rank \<Rightarrow> \<not> globalAuth_atLeast srv (u_id sender) rank)"

definition standing_in_PM :: "server \<Rightarrow> user \<Rightarrow> user \<Rightarrow> rejection option" where
  "standing_in_PM srv usr targetUser =
     (if (u_namelocked usr \<or> u_locked usr) \<and> \<not> u_can targetUser Lock None then Some LockedPM
      else if u_locked targetUser \<and> \<not> u_can usr Lock None then Some TargetLocked
      else if Config_pmmodchat srv \<noteq> [] \<and> \<not> globalAuth_atLeast srv (u_id usr) (Config_pmmodchat srv)
              \<and> \<not> hasPermission_promote srv (u_id targetUser) (Config_pmmodchat srv) then Some PMModchat
      else if blocks_PMs_from srv targetUser usr \<and> \<not> u_can usr Lock None then Some PMBlocked
      else if blocks_PMs_from srv usr targetUser \<and> \<not> u_can targetUser Lock None then Some PMBlocking
      else None)"

definition standing :: "server \<Rightarrow> user \<Rightarrow> room option \<Rightarrow> user option \<Rightarrow> rejection option" where
  "standing srv usr room targetUser =
     (if \<not> u_named usr then Some NoName
      else if u_can usr Bypassall None then None
      else (case (case room of None \<Rightarrow> None | Some r \<Rightarrow> standing_in_room usr r) of
              Some why \<Rightarrow> Some why
            | None \<Rightarrow> (case targetUser of None \<Rightarrow> None | Some t \<Rightarrow> standing_in_PM srv usr t)))"

text \<open>The letters-only length that the high-traffic check computes.\<close>

definition highTraffic_letters :: "server \<Rightarrow> jsstring \<Rightarrow> jsstring" where
  "highTraffic_letters srv message = remove_first_run (\<lambda>c. \<not> is_lower c) (toID srv message)"

text \<open>The checks on the text, from \<open>if (!message)\<close> to the end; the user's last
  message is recorded on the way.\<close>

definition talk_text :: "server \<Rightarrow> int \<Rightarrow> command_context \<Rightarrow> jsstring \<Rightarrow> room option \<Rightarrow> user option
    \<Rightarrow> talk_result \<times> user" where
  "talk_text srv now ctx message0 room targetUser =
     (let usr = c_user ctx in
      if message0 = [] then (Reject Blank, usr)
      else if MAX_MESSAGE_LENGTH < weighted_length message0 \<and> \<not> u_can usr Ignorelimits None
        then (Reject TooLong, usr)
      else
       (let message = strip_runs is_zalgo 3 message0 in
        if \<exists>c \<in> set message. is_banned_char c then (Reject BannedCharacters, usr)
        else if Config_restrictLinks srv \<and> \<not> u_autoconfirmed usr
                \<and> \<not> allLinksWhitelisted srv message
                \<and> \<not> ((case targetUser of None \<Rightarrow> False | Some t \<Rightarrow> u_can t Lock None)
                       \<or> (case room of None \<Rightarrow> False | Some r \<Rightarrow> r_isHelp r))
          then (Reject LinksRestricted, usr)
        else if \<not> checkFormat srv room usr message then (Reject BadFormat, usr)
        else if \<not> checkSlowchat now room usr then (Reject Slowchat, usr)
        else if \<not> checkBanwords room (u_name usr) \<and> \<not> u_can usr Bypassall None
          then (Reject BanwordName, usr)
        else if u_userMessage usr \<noteq> [] \<and> \<not> checkBanwords room (u_userMessage usr)
                \<and> \<not> u_can usr Bypassall None
          then (Reject BanwordStatus, usr)
        else if \<not> checkBanwords room message \<and> \<not> u_can usr Mute (map_option r_roomid room)
          then (Reject BanwordMessage, usr)
        else if checkGameFilter ctx \<noteq> None then (Reject GameFilter, usr)
        else if (case room of None \<Rightarrow> False | Some r \<Rightarrow>
                   \<not> u_can usr Bypassall None \<and> r_roomid r \<in> {js ''help'', js ''lobby''}
                   \<and> trim message = u_lastMessage usr
                   \<and> now - u_lastMessageTime usr < MESSAGE_COOLDOWN)
          then (Reject Duplicate, usr)
        else
         (let usr' = (case room of None \<Rightarrow> usr
                      | Some r \<Rightarrow> usr\<lparr>u_lastMessage := message, u_lastMessageTime := now\<rparr>) in
          if (case room of None \<Rightarrow> False | Some r \<Rightarrow>
                r_highTraffic r \<and> length (highTraffic_letters srv message) < 2
                \<and> \<not> u_can usr' Show (Some (r_roomid r)))
            then (Reject HighTraffic, usr')
          else if Chat_filters srv \<noteq> [] then (Says (Chat_filter (Chat_filters srv) message), usr')
          else (Says (Some message), usr'))))"

text \<open>
  \<open>canTalk(message, room, targetUser)\<close>; \<open>message = None\<close> is the call without a
  message. \<open>now\<close> is what \<open>Date.now()\<close> answers during the call. The first two
  definitions are the opening lines that settle whom the message goes to.
\<close>

definition talk_target :: "command_context \<Rightarrow> user option \<Rightarrow> user option" where
  "talk_target ctx targetUser = (case targetUser of None \<Rightarrow> c_pmTarget ctx | Some t \<Rightarrow> Some t)"

definition talk_room :: "command_context \<Rightarrow> room option \<Rightarrow> user option \<Rightarrow> room option" where
  "talk_room ctx room targetUser =
     (case talk_target ctx targetUser of
        Some t \<Rightarrow> None
      | None \<Rightarrow> (case room of None \<Rightarrow> c_room ctx | Some r \<Rightarrow> Some r))"

definition canTalk :: "server \<Rightarrow> int \<Rightarrow> command_context \<Rightarrow> jsstring option \<Rightarrow> room option \<Rightarrow> user option
    \<Rightarrow> talk_result \<times> user" where
  "canTalk srv now ctx message room0 targetUser0 =
     (let targetUser = talk_target ctx targetUser0;
          room = talk_room ctx room0 targetUser0
      in case standing srv (c_user ctx) room targetUser of
           Some why \<Rightarrow> (Reject why, c_user ctx)
         | None \<Rightarrow>
             (case message of
                None \<Rightarrow> (PermissionOnly, c_user ctx)
              | Some m \<Rightarrow> talk_text srv now ctx m room targetUser))"

text \<open>A caller treats a falsy return as a rejection.\<close>

definition talk_falsy :: "talk_result \<Rightarrow> bool" where
  "talk_falsy res = (case res of Reject why \<Rightarrow> True | PermissionOnly \<Rightarrow> False | Says r \<Rightarrow> \<not> truthy r)"

section \<open>The broadcast controller\<close>

definition shouldBroadcast :: "command_context \<Rightarrow> bool" where
  "shouldBroadcast ctx = (c_cmdToken ctx = BROADCAST_TOKEN)"

text \<open>\<open>suppressMessage || this.message\<close>: an absent or empty \<open>suppressMessage\<close> gives way.\<close>

definition broadcast_text :: "command_context \<Rightarrow> jsstring option \<Rightarrow> jsstring" where
  "broadcast_text ctx suppressMessage =
     (case suppressMessage of None \<Rightarrow> c_message ctx
      | Some s \<Rightarrow> if s = [] then c_message ctx else s)"

text \<open>The normalized invocation: \<open>.toLowerCase().replace(/[^a-z0-9\s!,]/g, '')\<close>.\<close>

definition normalize_broadcast :: "server \<Rightarrow> jsstring \<Rightarrow> jsstring" where
  "normalize_broadcast srv text =
     filter (\<lambda>c. is_lower c \<or> is_digit c \<or> is_space c \<or> c = 33 \<or> c = 44) (toLowerCase srv text)"

text \<open>Why \<open>canBroadcast\<close> returned \<open>false\<close>; each comes with error replies to the user.\<close>

datatype broadcast_denial = NeedsVoice | NoAudience | JustBroadcasted | CannotTalk

text \<open>
  \<open>canBroadcast(ignoreCooldown, suppressMessage)\<close>. \<open>None\<close> is \<open>return true\<close>. The
  context comes back with what the call changed: the user's last message (through
  \<open>canTalk\<close>), \<open>this.message\<close> and \<open>this.broadcastMessage\<close>.
\<close>

definition canBroadcast :: "server \<Rightarrow> int \<Rightarrow> command_context \<Rightarrow> bool \<Rightarrow> jsstring option
    \<Rightarrow> broadcast_denial option \<times> command_context" where
  "canBroadcast srv now ctx ignoreCooldown suppressMessage =
     (if c_broadcasting ctx \<or> \<not> shouldBroadcast ctx then (None, ctx)
      else if (case c_room ctx of None \<Rightarrow> False
               | Some r \<Rightarrow> \<not> u_can (c_user ctx) Show (Some (r_roomid r)))
        then (Some NeedsVoice, ctx)
      else if c_room ctx = None \<and> c_pmTarget ctx = None then (Some NoAudience, ctx)
      else
       (let broadcastMessage = normalize_broadcast srv (broadcast_text ctx suppressMessage) in
        if \<not> ignoreCooldown
           \<and> (case c_room ctx of None \<Rightarrow> False
                | Some r \<Rightarrow> r_lastBroadcast r = broadcastMessage
                    \<and> now - BROADCAST_COOLDOWN \<le> r_lastBroadcastTime r)
           \<and> \<not> u_can (c_user ctx) Bypassall None
          then (Some JustBroadcasted, ctx)
        else
         (case canTalk srv now ctx (Some (broadcast_text ctx suppressMessage)) None None of
            (message, usr') \<Rightarrow>
              if talk_falsy message then (Some CannotTalk, ctx\<lparr>c_user := usr'\<rparr>)
              else (None, ctx\<lparr>c_user := usr',
                        c_message := (case message of Says (Some m) \<Rightarrow> m | _ \<Rightarrow> c_message ctx),
                        c_broadcastMessage := broadcastMessage\<rparr>))))"

text \<open>
  \<open>runBroadcast(ignoreCooldown, suppressMessage)\<close>. The line that shows the invocation
  to the room is sent between the two updates and changes no state.
\<close>

definition runBroadcast :: "server \<Rightarrow> int \<Rightarrow> command_context \<Rightarrow> bool \<Rightarrow> jsstring option
    \<Rightarrow> broadcast_denial option \<times> command_context" where
  "runBroadcast srv now ctx ignoreCooldown suppressMessage =
     (if c_broadcasting ctx \<or> \<not> shouldBroadcast ctx then (None, ctx)
      else
       (case (if c_broadcastMessage ctx = [] then canBroadcast srv now ctx ignoreCooldown suppressMessage
              else (None, ctx)) of
          (Some denial, ctx1) \<Rightarrow> (Some denial, ctx1)
        | (None, ctx1) \<Rightarrow>
            (let ctx2 = ctx1\<lparr>c_broadcasting := True\<rparr> in
             (None,
              (case c_room ctx2 of
                 None \<Rightarrow> ctx2
               | Some r \<Rightarrow>
                   if ignoreCooldown then ctx2
                   else ctx2\<lparr>c_room := Some (r\<lparr>r_lastBroadcast := c_broadcastMessage ctx2,
                                                r_lastBroadcastTime := now\<rparr>)\<rparr>)))))"

section \<open>The command resolver: \<open>parseCommand\<close>\<close>

text \<open>JavaScript truthiness of a looked-up value; \<open>None\<close> is \<open>undefined\<close>.\<close>

definition js_truthy :: "jsval option \<Rightarrow> bool" where
  "js_truthy v = (case v of None \<Rightarrow> False | Some (Fn h) \<Rightarrow> True | Some (Str s) \<Rightarrow> s \<noteq> []
     | Some (Obj isArray props) \<Rightarrow> True | Some (Prim b) \<Rightarrow> b)"

text \<open>The invocation descriptor that \<open>parseCommand\<close> returns.\<close>

record descriptor =
  d_cmd :: jsstring
  d_cmdToken :: jsstring
  d_target :: jsstring
  d_fullCmd :: jsstring
  d_handler :: "jsval option"

text \<open>The hardcoded rewrites. \<open>/[^A-Za-z0-9 ]/\<close> on the one character \<open>charAt(3)\<close>.\<close>

definition not_alnum_or_space :: "jsstring \<Rightarrow> bool" where
  "not_alnum_or_space s = (\<exists>c \<in> set s. \<not> is_alnum c \<and> c \<noteq> 32)"

definition not_alnum :: "jsstring \<Rightarrow> bool" where
  "not_alnum s = (\<exists>c \<in> set s. \<not> is_alnum c)"

definition hardcoded :: "jsstring \<Rightarrow> jsstring" where
  "hardcoded message =
     (if startsWith message (js ''>> '') then js ''/eval '' @ drop 3 message
      else if startsWith message (js ''>>> '') then js ''/evalbattle '' @ drop 4 message
      else if startsWith message (js ''/me'') \<and> not_alnum_or_space (charAt message 3)
        then js ''/mee '' @ drop 3 message
      else if startsWith message (js ''/ME'') \<and> not_alnum_or_space (charAt message 3)
        then js ''/MEE '' @ drop 3 message
      else message)"

text \<open>The split at the first space into \<open>cmd\<close> and \<open>target\<close>, and the trailing comma.\<close>

definition split_command :: "(jsstring \<Rightarrow> jsstring) \<Rightarrow> jsstring \<Rightarrow> jsstring \<times> jsstring" where
  "split_command lower message =
     (let messageSpaceIndex = indexOf message 32;
          cmd = (if 0 < messageSpaceIndex then lower (drop 1 (take (nat messageSpaceIndex) message))
                 else lower (drop 1 message));
          target = (if 0 < messageSpaceIndex then trim (drop (nat messageSpaceIndex + 1) message)
                    else [])
      in (if endsWith cmd (js '','') then slice_end cmd 1 else cmd, target))"

text \<open>
  One look-up of the \<open>do\<close> loop: a string is followed once as an alias; an array found
  directly, when not recursing, leaves the loop for the help redirection.
\<close>

datatype looked_up = RedirectToHelp | Entry "jsval option"

definition look_up :: "bool \<Rightarrow> (jsstring \<times> jsval) list \<Rightarrow> jsstring \<Rightarrow> looked_up" where
  "look_up recursing curCommands cmd =
     (case map_of curCommands cmd of
        Some (Str alias) \<Rightarrow> Entry (map_of curCommands alias)
      | Some (Obj isArray props) \<Rightarrow>
          if isArray \<and> \<not> recursing then RedirectToHelp else Entry (Some (Obj isArray props))
      | other \<Rightarrow> Entry other)"

text \<open>
  The \<open>do\<close> loop. \<open>Walked cmd target fullCmd commandHandler curCommands\<close> is the state
  when the loop ends; \<open>HelpRedirect fullCmd\<close> is the \<open>return\<close> inside the loop.
\<close>

datatype walk = HelpRedirect jsstring
  | Walked jsstring jsstring jsstring "jsval option" "(jsstring \<times> jsval) list"

lemma map_of_smaller:
  fixes props :: "(jsstring \<times> jsval) list"
  shows "map_of props k = Some v \<Longrightarrow> size v < Suc (size_list (size_prod (\<lambda>x. 0) size) props)"
  by (induction props) (auto split: if_splits)

function descend :: "(jsstring \<Rightarrow> jsstring) \<Rightarrow> bool \<Rightarrow> (jsstring \<times> jsval) list
    \<Rightarrow> jsstring \<Rightarrow> jsstring \<Rightarrow> jsstring \<Rightarrow> walk" where
  "descend lower recursing curCommands cmd target fullCmd =
     (case look_up recursing curCommands cmd of
        RedirectToHelp \<Rightarrow> HelpRedirect fullCmd
      | Entry commandHandler \<Rightarrow>
          (case commandHandler of
             Some (Obj isArray props) \<Rightarrow>
               (let spaceIndex = indexOf target 32;
                    cmd' = (if 0 < spaceIndex then lower (take (nat spaceIndex) target)
                            else lower target);
                    target' = (if 0 < spaceIndex then drop (nat spaceIndex + 1) target else [])
                in descend lower recursing props cmd' target' (fullCmd @ js '' '' @ cmd'))
           | _ \<Rightarrow> Walked cmd target fullCmd commandHandler curCommands))"
  by pat_completeness auto
termination
proof (relation "measure (\<lambda>(lower, recursing, curCommands, cmd, target, fullCmd).
    size_list (size_prod (\<lambda>x. 0) size) curCommands)")
  show "wf (measure (\<lambda>(lower, recursing, curCommands, cmd, target, fullCmd).
    size_list (size_prod (\<lambda>x. 0) size) curCommands))"
    by simp
next
  fix lower :: "jsstring \<Rightarrow> jsstring" and recursing curCommands cmd and target fullCmd :: jsstring
    and x2 x2a isArray props x xa xb
  assume "look_up recursing curCommands cmd = Entry x2" and "x2 = Some x2a"
    and "x2a = Obj isArray props"
  then have "map_of curCommands cmd = Some (Obj isArray props)
      \<or> (\<exists>alias. map_of curCommands alias = Some (Obj isArray props))"
    by (auto simp add: look_up_def split: option.splits jsval.splits if_splits)
  then have "size (Obj isArray props) < Suc (size_list (size_prod (\<lambda>x. 0) size) curCommands)"
    using map_of_smaller by blast
  then show "((lower, recursing, props, xb, xa, fullCmd @ js '' '' @ xb),
       lower, recursing, curCommands, cmd, target, fullCmd)
      \<in> measure (\<lambda>(lower, recursing, curCommands, cmd, target, fullCmd).
          size_list (size_prod (\<lambda>x. 0) size) curCommands)"
    by simp
qed

declare descend.simps [simp del]

text \<open>\<open>if (!commandHandler && curCommands.default)\<close>.\<close>

definition default_fallback :: "jsval option \<Rightarrow> (jsstring \<times> jsval) list \<Rightarrow> jsval option" where
  "default_fallback commandHandler curCommands =
     (if \<not> js_truthy commandHandler \<and> js_truthy (map_of curCommands (js ''default''))
      then (case map_of curCommands (js ''default'') of
              Some (Str alias) \<Rightarrow> map_of curCommands alias
            | other \<Rightarrow> other)
      else commandHandler)"

text \<open>
  The loop over \<open>Config.groups\<close>, a list of pairs of group symbol and group id:
  the message of the first shorthand that matches.
\<close>

fun group_shorthand :: "(jsstring \<times> jsstring) list \<Rightarrow> jsstring \<Rightarrow> jsstring \<Rightarrow> jsstring option" where
  "group_shorthand [] fullCmd target = None"
| "group_shorthand ((g, groupid) # rest) fullCmd target =
     (if fullCmd = groupid then Some (js ''/promote '' @ target @ js '', '' @ g)
      else if fullCmd = js ''global'' @ groupid then Some (js ''/globalpromote '' @ target @ js '', '' @ g)
      else if fullCmd = js ''de'' @ groupid \<or> fullCmd = js ''un'' @ groupid
              \<or> fullCmd = js ''globalde'' @ groupid \<or> fullCmd = js ''deglobal'' @ groupid
        then Some (js ''/demote '' @ target)
      else if fullCmd = js ''room'' @ groupid then Some (js ''/roompromote '' @ target @ js '', '' @ g)
      else if fullCmd = js ''forceroom'' @ groupid
        then Some (js ''/forceroompromote '' @ target @ js '', '' @ g)
      else if fullCmd = js ''roomde'' @ groupid \<or> fullCmd = js ''deroom'' @ groupid
              \<or> fullCmd = js ''roomun'' @ groupid
        then Some (js ''/roomdemote '' @ target)
      else group_shorthand rest fullCmd target)"

text \<open>
  One pass through the body of \<open>parseCommand\<close>; \<open>Redirect m\<close> stands for
  \<open>return this.parseCommand(m, true)\<close>.
\<close>

datatype resolution = NoCommand | Redirect jsstring | Resolved descriptor

definition resolve :: "server \<Rightarrow> jsstring \<Rightarrow> bool \<Rightarrow> resolution" where
  "resolve srv message0 recursing =
     (if trim message0 = [] then NoCommand
      else
       (let message = hardcoded message0;
            cmdToken = charAt message 0
        in if \<not> js_includes VALID_COMMAND_TOKENS cmdToken then NoCommand
           else if cmdToken = charAt message 1 then NoCommand
           else if cmdToken = BROADCAST_TOKEN \<and> not_alnum (charAt message 1) then NoCommand
           else
            (case split_command (toLowerCase srv) message of
               (cmd0, target0) \<Rightarrow>
                 (case descend (toLowerCase srv) recursing (Chat_commands srv) cmd0 target0 cmd0 of
                    HelpRedirect fullCmd \<Rightarrow> Redirect (cmdToken @ js ''help '' @ slice_end fullCmd 4)
                  | Walked cmd target fullCmd commandHandler0 curCommands \<Rightarrow>
                      (let commandHandler = default_fallback commandHandler0 curCommands in
                       case (if \<not> js_truthy commandHandler \<and> \<not> recursing
                             then group_shorthand (Config_groups srv) fullCmd target else None) of
                         Some m \<Rightarrow> Redirect m
                       | None \<Rightarrow> Resolved \<lparr> d_cmd = cmd, d_cmdToken = cmdToken, d_target = target,
                                   d_fullCmd = fullCmd, d_handler = commandHandler \<rparr>)))))"

text \<open>A call with \<open>recursing\<close> set makes no further call.\<close>

lemma look_up_recursing: "look_up True curCommands cmd \<noteq> RedirectToHelp"
  by (simp add: look_up_def split: option.split jsval.split)

lemma descend_recursing:
  "recursing \<Longrightarrow> descend lower recursing curCommands cmd target fullCmd \<noteq> HelpRedirect x"
proof (induction lower recursing curCommands cmd target fullCmd arbitrary: x rule: descend.induct)
  case (1 lower recursing curCommands cmd target fullCmd)
  show ?case
    using 1 look_up_recursing [of curCommands cmd]
    by (subst descend.simps)
       (auto simp add: Let_def split: looked_up.split option.split jsval.split)
qed

lemma resolve_recursing: "resolve srv message True \<noteq> Redirect m"
  using descend_recursing [of True]
  by (simp add: resolve_def Let_def split: prod.split walk.split)

text \<open>
  \<open>parseCommand(message, recursing)\<close>. The run returns the descriptor (\<open>None\<close> is
  \<open>null\<close>) and the list of the calls of \<open>parseCommand\<close> it made, this one first, each
  with its message and its \<open>recursing\<close> flag.
\<close>

function parseCommand_run :: "server \<Rightarrow> jsstring \<Rightarrow> bool \<Rightarrow> descriptor option \<times> (jsstring \<times> bool) list" where
  "parseCommand_run srv message recursing =
     (case resolve srv message recursing of
        NoCommand \<Rightarrow> (None, [(message, recursing)])
      | Resolved d \<Rightarrow> (Some d, [(message, recursing)])
      | Redirect m \<Rightarrow>
          (case parseCommand_run srv m True of
             (result, calls) \<Rightarrow> (result, (message, recursing) # calls)))"
  by pat_completeness auto
termination
proof (relation "measure (\<lambda>(srv, message, recursing). if recursing then 0 else 1)")
  show "wf (measure (\<lambda>(srv :: server, message :: jsstring, recursing). if recursing then 0 else (1::nat)))"
    by simp
next
  fix srv :: server and message :: jsstring and recursing m
  assume "resolve srv message recursing = Redirect m"
  then have "\<not> recursing"
    using resolve_recursing [of srv message m] by (cases recursing) simp_all
  then show "((srv, m, True), srv, message, recursing)
      \<in> measure (\<lambda>(srv, message, recursing). if recursing then 0 else 1)"
    by simp
qed

declare parseCommand_run.simps [simp del]

definition parseCommand :: "server \<Rightarrow> jsstring \<Rightarrow> bool \<Rightarrow> descriptor option" where
  "parseCommand srv message recursing = fst (parseCommand_run srv message recursing)"


section \<open>The execution context: \<open>parse\<close>\<close>

text \<open>
  The constructor of \<open>CommandContext\<close>, applied to the options it reads. The
  constructor of \<open>MessageContext\<close>, called first, sets \<open>recursionDepth\<close> to \<open>0\<close>; no
  later line of the constructor assigns it.
\<close>

definition CommandContext :: "jsstring \<Rightarrow> user \<Rightarrow> room option \<Rightarrow> user option
    \<Rightarrow> jsstring \<Rightarrow> jsstring \<Rightarrow> jsstring \<Rightarrow> jsstring \<Rightarrow> command_context" where
  "CommandContext message usr room pmTarget cmd cmdToken target fullCmd =
     \<lparr> c_user = usr, c_room = room, c_pmTarget = pmTarget, c_message = message,
       c_cmd = cmd, c_cmdToken = cmdToken, c_target = target, c_fullCmd = fullCmd,
       c_handler = None, c_isQuiet = False, c_broadcasting = False, c_broadcastToRoom = True,
       c_broadcastMessage = [], c_recursionDepth = 0 \<rparr>"

text \<open>
  The first branch of \<open>parse(msg, quiet)\<close>, up to \<open>return subcontext.parse()\<close>:
  \<open>new CommandContext(this)\<close> and the recursion guard. \<open>Inl\<close> is the \<open>throw\<close>.
\<close>

definition spawn_subcontext :: "command_context \<Rightarrow> jsstring \<Rightarrow> bool \<Rightarrow> js_error + command_context" where
  "spawn_subcontext this msg quiet =
     (let subcontext0 = CommandContext (c_message this) (c_user this) (c_room this) (c_pmTarget this)
                          (c_cmd this) (c_cmdToken this) (c_target this) (c_fullCmd this);
          subcontext1 = (if quiet then subcontext0\<lparr>c_isQuiet := True\<rparr> else subcontext0);
          subcontext = subcontext1\<lparr>c_recursionDepth := c_recursionDepth subcontext1 + 1\<rparr>
      in if MAX_PARSE_RECURSION < c_recursionDepth subcontext
         then Inl \<lparr> e_name = js ''Error'', e_message = js ''Too much command recursion'' \<rparr>
         else Inr (subcontext\<lparr>c_message := msg, c_cmd := [], c_fullCmd := [], c_cmdToken := [],
                              c_target := []\<rparr>))"

text \<open>A chain of nested sub-invocations: each context spawns the next.\<close>

fun spawn_chain :: "nat \<Rightarrow> jsstring \<Rightarrow> command_context \<Rightarrow> js_error + command_context" where
  "spawn_chain 0 msg this = Inr this"
| "spawn_chain (Suc n) msg this =
     (case spawn_chain n msg this of
        Inl err \<Rightarrow> Inl err
      | Inr parent \<Rightarrow> spawn_subcontext parent msg False)"

text \<open>
  What \<open>parse\<close> itself does to the outside. A reply is recorded with the way
  \<open>sendReply\<close> routes it: to the room log, to both ends of a PM, or to the
  connection of the user alone (in a PM or console, or in a room).
\<close>

datatype route = RoomLog | PMPair | ConnectionPM | ConnectionRoom

datatype chat_route = ViaPM | ViaRoom | Undeliverable

record crash_context =
  crash_user :: jsstring
  crash_room :: "jsstring option"
  crash_pmTarget :: "jsstring option"
  crash_message :: jsstring

datatype event =
    Popup jsstring
  | Reply route jsstring
  | TalkReply rejection
  | Crashlog js_error jsstring crash_context
  | ChatMessage chat_route jsstring
  | StatusOnline
  | Update

definition sendReply :: "command_context \<Rightarrow> jsstring \<Rightarrow> event list" where
  "sendReply this data =
     (if c_isQuiet this then []
      else if c_broadcasting this \<and> c_broadcastToRoom this
        then (case c_room this of Some r \<Rightarrow> [Reply RoomLog data] | None \<Rightarrow> [Reply PMPair data])
      else (case c_room this of None \<Rightarrow> [Reply ConnectionPM data]
            | Some r \<Rightarrow> [Reply ConnectionRoom data]))"

text \<open>\<open>message.replace(/\n/g, `\n|error|`)\<close>.\<close>

fun error_lines :: "jsstring \<Rightarrow> jsstring" where
  "error_lines [] = []"
| "error_lines (c # cs) = (if c = 10 then 10 # js ''|error|'' @ error_lines cs else c # error_lines cs)"

definition errorReply :: "command_context \<Rightarrow> jsstring \<Rightarrow> event list" where
  "errorReply this message = sendReply this (js ''|error|'' @ error_lines message)"

definition sendChatMessage :: "command_context \<Rightarrow> jsstring \<Rightarrow> event list" where
  "sendChatMessage this message =
     (case c_pmTarget this of
        Some t \<Rightarrow> [ChatMessage ViaPM message]
      | None \<Rightarrow> (case c_room this of Some r \<Rightarrow> [ChatMessage ViaRoom message]
                 | None \<Rightarrow> [ChatMessage Undeliverable message]))"

definition update :: "command_context \<Rightarrow> event list" where
  "update this = (case c_room this of Some r \<Rightarrow> [Update] | None \<Rightarrow> [])"

definition crash_notice :: jsstring where
  "crash_notice = js (''|html|<div class=\"broadcast-red\"><b>Pokemon Showdown crashed!</b><br />''
     @ ''Don't worry, we're working on fixing it.</div>'')"

text \<open>\<open>commandDoesNotExist\<close> always throws an \<open>ErrorMessage\<close>.\<close>

definition commandDoesNotExist :: "command_context \<Rightarrow> js_error" where
  "commandDoesNotExist this =
     \<lparr> e_name = js ''ErrorMessage'',
       e_message =
         (if c_cmdToken this = js ''!''
          then js ''The command \"'' @ c_cmdToken this @ c_fullCmd this @ js ''\" does not exist.''
          else js ''The command \"'' @ c_cmdToken this @ c_fullCmd this
            @ js ''\" does not exist. To send a message starting with \"''
            @ c_cmdToken this @ c_fullCmd this @ js ''\", type \"''
            @ c_cmdToken this @ c_cmdToken this @ c_fullCmd this @ js ''\".'') \<rparr>"

text \<open>
  \<open>run(handler)\<close>. A string is looked up in \<open>Chat.commands\<close>; reading a property of
  \<open>undefined\<close> or \<open>null\<close>, and calling what is not a function, throw a \<open>TypeError\<close>.
  A falsy value found under the name is taken to be \<open>null\<close>.
\<close>

definition type_error :: js_error where
  "type_error = \<lparr> e_name = js ''TypeError'', e_message = js ''not a function'' \<rparr>"

definition broadcastable_of :: "jsval \<Rightarrow> bool" where
  "broadcastable_of v =
     (case v of Fn h \<Rightarrow> h_broadcastable h
      | Obj isArray props \<Rightarrow> js_truthy (map_of props (js ''broadcastable''))
      | _ \<Rightarrow> False)"

datatype attempt = Finished ret command_context "event list" | Raised js_error command_context

definition run :: "server \<Rightarrow> command_context \<Rightarrow> jsval \<Rightarrow> attempt" where
  "run srv this handler0 =
     (case (case handler0 of Str name \<Rightarrow> map_of (Chat_commands srv) name | v \<Rightarrow> Some v) of
        None \<Rightarrow> Raised type_error this
      | Some (Prim False) \<Rightarrow> Raised type_error this
      | Some handler \<Rightarrow>
          if \<not> broadcastable_of handler \<and> c_cmdToken this = js ''!''
          then Finished (Plain (PBool False)) this
                 (errorReply this (js ''The command \"'' @ c_fullCmd this @ js ''\" can't be broadcast.'')
                  @ errorReply this (js ''Use /'' @ c_fullCmd this @ js '' instead.''))
          else (case handler of
                  Fn h \<Rightarrow>
                    (case call_handler srv h this of
                       Threw err this' \<Rightarrow> Raised err this'
                     | Returned result this' \<Rightarrow>
                         Finished (if result = Plain PUndefined then Plain (PBool False) else result)
                           this' [])
                | _ \<Rightarrow> Raised type_error this))"

text \<open>What \<open>canTalk\<close> hands back to \<open>parse\<close>, and the reply it gave on a rejection.\<close>

definition talk_value :: "talk_result \<Rightarrow> ret" where
  "talk_value res =
     (case res of Reject why \<Rightarrow> Plain PNull | PermissionOnly \<Rightarrow> Plain (PBool True)
      | Says None \<Rightarrow> Plain PNull | Says (Some m) \<Rightarrow> Plain (PString m))"

definition talk_events :: "talk_result \<Rightarrow> event list" where
  "talk_events res = (case res of Reject why \<Rightarrow> [TalkReply why] | _ \<Rightarrow> [])"

text \<open>
  The lines of \<open>parse()\<close> before the \<open>try\<close>: the descriptor is stored, a user who is
  not in the room leaves through a popup (the lobby is dropped instead), an idle user
  comes back online. \<open>Inl\<close> is the early \<open>return\<close>.
\<close>

definition store_descriptor :: "command_context \<Rightarrow> descriptor \<Rightarrow> command_context" where
  "store_descriptor this parsedCommand =
     this\<lparr>c_cmd := d_cmd parsedCommand, c_fullCmd := d_fullCmd parsedCommand,
          c_cmdToken := d_cmdToken parsedCommand, c_target := d_target parsedCommand,
          c_handler := d_handler parsedCommand\<rparr>"

definition prepare :: "server \<Rightarrow> command_context \<Rightarrow> event list + (event list \<times> command_context)" where
  "prepare srv this0 =
     (let this1 = (case parseCommand srv (c_message this0) False of
                     None \<Rightarrow> this0
                   | Some parsedCommand \<Rightarrow> store_descriptor this0 parsedCommand);
          absent = (case c_room this1 of None \<Rightarrow> False
                    | Some r \<Rightarrow> u_id (c_user this1) \<notin> set (r_users r))
      in if absent \<and> map_option r_roomid (c_room this1) \<noteq> Some (js ''lobby'')
         then Inl [Popup (js ''You tried to send \"'' @ c_message this0 @ js ''\" to the room \"''
                     @ (case c_room this1 of None \<Rightarrow> [] | Some r \<Rightarrow> r_roomid r)
                     @ js ''\" but it failed because you were not in that room.'')]
         else
          (let this2 = (if absent then this1\<lparr>c_room := None\<rparr> else this1) in
           if u_statusType (c_user this2) = js ''idle''
              \<and> c_cmd this2 \<notin> {js ''unaway'', js ''unafk'', js ''back''}
           then Inr ([StatusOnline],
                     this2\<lparr>c_user := (c_user this2)\<lparr>u_statusType := js ''online''\<rparr>\<rparr>)
           else Inr ([], this2)))"

text \<open>The \<open>try\<close> block: the handler runs, or the text goes through \<open>canTalk\<close>.\<close>

definition attempt :: "server \<Rightarrow> int \<Rightarrow> jsstring \<Rightarrow> command_context \<Rightarrow> attempt" where
  "attempt srv now message0 this =
     (if js_truthy (c_handler this) then run srv this (the (c_handler this))
      else if c_cmdToken this \<noteq> [] \<and> \<not> (shouldBroadcast this
                \<and> \<not> (\<exists>c \<in> set (charAt (c_cmd this) 0). is_lower c \<or> is_digit c))
        then Raised (commandDoesNotExist this) this
      else
       (let message =
              (if c_cmdToken this = [] \<and> \<not> js_includes VALID_COMMAND_TOKENS (charAt message0 0)
                  \<and> js_includes VALID_COMMAND_TOKENS (charAt (trim message0) 0)
               then (if charAt (trim message0) 0 \<noteq> BROADCAST_TOKEN
                     then charAt (trim message0) 0 @ trim message0 else trim message0)
               else message0)
        in case canTalk srv now this (Some message) None None of
             (res, usr') \<Rightarrow> Finished (talk_value res) (this\<lparr>c_user := usr'\<rparr>) (talk_events res)))"

text \<open>
  \<open>if (message && message !== true) this.sendChatMessage(message)\<close>, for the value at
  hand or for the value a promise resolved to.
\<close>

definition deliver :: "command_context \<Rightarrow> plain \<Rightarrow> event list" where
  "deliver this v = (case v of PString m \<Rightarrow> (if m = [] then [] else sendChatMessage this m) | _ \<Rightarrow> [])"

definition crash_context_of :: "command_context \<Rightarrow> crash_context" where
  "crash_context_of this =
     \<lparr> crash_user = u_name (c_user this), crash_room = map_option r_roomid (c_room this),
       crash_pmTarget = map_option u_name (c_pmTarget this), crash_message = c_message this \<rparr>"

text \<open>The two \<open>catch\<close> handlers do the same; \<open>Inl\<close> is \<open>return false\<close>.\<close>

definition catch :: "jsstring \<Rightarrow> js_error \<Rightarrow> command_context \<Rightarrow> event list + event list" where
  "catch what err this =
     (if endsWith (e_name err) (js ''ErrorMessage'') then Inl (errorReply this (e_message err))
      else Inr (Crashlog err what (crash_context_of this) # sendReply this crash_notice))"

text \<open>The rest of \<open>parse()\<close> after the \<open>try\<close>: the output. A promise settles after
  \<open>parse\<close> has returned it, so what its continuation does comes last.\<close>

definition output_message :: "command_context \<Rightarrow> ret \<Rightarrow> event list" where
  "output_message this message =
     (case message of
        Plain v \<Rightarrow> deliver this v @ update this
      | Promise p \<Rightarrow>
          update this @
          (case p of
             Resolves v \<Rightarrow> deliver this v @ update this
           | Rejects err \<Rightarrow>
               (case catch (js ''An async chat command'') err this of Inl evs \<Rightarrow> evs | Inr evs \<Rightarrow> evs)))"

text \<open>
  \<open>parse()\<close> on a context: the events, the value returned, and the context afterwards.
  After an error that is not an \<open>ErrorMessage\<close> the variable \<open>message\<close> still holds
  \<open>this.message\<close> as it was on entry, and the output lines run with it.
\<close>

definition parse_context :: "server \<Rightarrow> int \<Rightarrow> command_context \<Rightarrow> event list \<times> ret \<times> command_context" where
  "parse_context srv now this0 =
     (case prepare srv this0 of
        Inl evs \<Rightarrow> (evs, Plain PUndefined, this0)
      | Inr (evs0, this) \<Rightarrow>
          (case attempt srv now (c_message this0) this of
             Finished message this' evs \<Rightarrow> (evs0 @ evs @ output_message this' message, message, this')
           | Raised err this' \<Rightarrow>
               (case catch (js ''A chat command'') err this' of
                  Inl evs \<Rightarrow> (evs0 @ evs, Plain (PBool False), this')
                | Inr evs \<Rightarrow>
                    (evs0 @ evs @ output_message this' (Plain (PString (c_message this0))),
                     Plain (PString (c_message this0)), this'))))"

text \<open>\<open>parse(msg, quiet)\<close> with a string: the sub-invocation. \<open>Inl\<close> is the \<open>throw\<close>.\<close>

definition parse :: "server \<Rightarrow> int \<Rightarrow> command_context \<Rightarrow> jsstring \<Rightarrow> bool
    \<Rightarrow> js_error + (event list \<times> ret \<times> command_context)" where
  "parse srv now this msg quiet =
     (case spawn_subcontext this msg quiet of
        Inl err \<Rightarrow> Inl err
      | Inr subcontext \<Rightarrow> Inr (parse_context srv now subcontext))"

section \<open>Example data\<close>

text \<open>
  Modelled from the spec: \<open>Dex.toID\<close> is defined in \<open>sim/dex\<close>, outside the files at
  hand; the spec calls what the high-traffic check measures the letters-only content of
  the message. \<open>toID\<close> lower-cases its argument and keeps the characters \<open>a-z\<close> and
  \<open>0-9\<close>.
\<close>

definition Dex_toID :: "(jsstring \<Rightarrow> jsstring) \<Rightarrow> jsstring \<Rightarrow> jsstring" where
  "Dex_toID lower text = filter (\<lambda>c. is_lower c \<or> is_digit c) (lower text)"

text \<open>A server without plugins, filters, groups or link restriction.\<close>

definition bare_server :: server where
  "bare_server = \<lparr> toLowerCase = ascii_lower, toID = Dex_toID ascii_lower,
     Chat_commands = [], Chat_filters = [], Config_groups = [],
     Config_pmmodchat = [], Config_restrictLinks = False,
     globalAuth_atLeast = (\<lambda>u rank. False), hasPermission_promote = (\<lambda>u rank. False),
     rx_stretching = (\<lambda>n s. False), rx_emoji = (\<lambda>s. False),
     allLinksWhitelisted = (\<lambda>s. True),
     call_handler = (\<lambda>h this. Returned (Plain PUndefined) this) \<rparr>"

text \<open>A named regular user without any permission, and the same user before choosing a name.\<close>

definition alice :: user where
  "alice = \<lparr> u_id = js ''alice'', u_name = js ''Alice'', u_named = True,
     u_namelocked = False, u_locked = False, u_autoconfirmed = True,
     u_userMessage = [], u_statusType = js ''online'', u_blockPMs = BlockNone,
     u_lastMessage = [], u_lastMessageTime = 0, u_can = (\<lambda>p r. False) \<rparr>"

definition guest :: user where
  "guest = alice\<lparr> u_named := False \<rparr>"

text \<open>A voiced user: holds \<open>show\<close> everywhere and nothing else.\<close>

definition voiced :: user where
  "voiced = alice\<lparr> u_id := js ''vera'', u_name := js ''Vera'', u_can := (\<lambda>p r. p = Show) \<rparr>"

text \<open>A chat room with both users in it and every setting off; its high-traffic twin;
  and the lobby.\<close>

definition tavern :: room where
  "tavern = \<lparr> r_roomid = js ''tavern'', r_users = [js ''alice'', js ''vera''], r_isHelp = False,
     r_isMuted = (\<lambda>u. False), r_modchat = [], r_auth_atLeast = (\<lambda>u rank. False),
     r_filterStretching = False, r_filterCaps = False, r_filterEmojis = False,
     r_slowchat = 0, r_banwordRegex = [\<lambda>s. False], r_onChatMessage = None,
     r_highTraffic = False, r_lastBroadcast = [], r_lastBroadcastTime = 0 \<rparr>"

definition arena :: room where
  "arena = tavern\<lparr> r_roomid := js ''arena'', r_highTraffic := True \<rparr>"

definition lobby :: room where
  "lobby = tavern\<lparr> r_roomid := js ''lobby'' \<rparr>"

text \<open>\<open>Chat.parse\<close> builds \<open>new CommandContext({message, room, user, connection})\<close>.\<close>

definition new_context :: "jsstring \<Rightarrow> room option \<Rightarrow> user \<Rightarrow> command_context" where
  "new_context message room usr = CommandContext message usr room None [] [] [] []"

text \<open>A fresh context for \<open>message\<close> whose command token was resolved to \<open>!\<close>.\<close>

definition broadcast_context :: "jsstring \<Rightarrow> room option \<Rightarrow> user \<Rightarrow> command_context" where
  "broadcast_context message room usr = (new_context message room usr)\<lparr>c_cmdToken := js ''!''\<rparr>"

text \<open>An invocation to broadcast, the user after \<open>canTalk\<close> recorded it at time \<open>t\<close>,
  and the room after \<open>runBroadcast\<close> recorded it at time \<open>t\<close>.\<close>

definition pikachu :: jsstring where
  "pikachu = js ''!data Pikachu''"

definition heard :: "user \<Rightarrow> int \<Rightarrow> user" where
  "heard usr t = usr\<lparr>u_lastMessage := pikachu, u_lastMessageTime := t\<rparr>"

definition aired :: "room \<Rightarrow> int \<Rightarrow> room" where
  "aired r t = r\<lparr>r_lastBroadcast := js ''!data pikachu'', r_lastBroadcastTime := t\<rparr>"

text \<open>A verb as the plugins register it: a non-empty identifier of lower-case letters
  and digits.\<close>

definition plain_verb :: "jsstring \<Rightarrow> bool" where
  "plain_verb v = (v \<noteq> [] \<and> (\<forall>c \<in> set v. is_lower c \<or> is_digit c))"

text \<open>A small command table: a handler, an alias of it, its help array, the help
  command, and a handler that cannot be broadcast.\<close>

definition demo_commands :: "(jsstring \<times> jsval) list" where
  "demo_commands =
    [(js ''data'', Fn \<lparr>h_id = 1, h_broadcastable = True\<rparr>),
     (js ''dex'', Str (js ''data'')),
     (js ''datahelp'', Obj True [(js ''0'', Str (js ''/data [pokemon] - Shows data.'')),
                                 (js ''length'', Prim True)]),
     (js ''help'', Fn \<lparr>h_id = 2, h_broadcastable = True\<rparr>),
     (js ''join'', Fn \<lparr>h_id = 3, h_broadcastable = False\<rparr>)]"

definition demo_server :: server where
  "demo_server = bare_server\<lparr>Chat_commands := demo_commands\<rparr>"

text \<open>Two handlers that throw: \<open>/boom\<close> a user-facing \<open>ErrorMessage\<close>, \<open>/crash\<close> a
  \<open>TypeError\<close>.\<close>

definition not_found :: js_error where
  "not_found = \<lparr> e_name = js ''ErrorMessage'', e_message = js ''Pokemon not found.'' \<rparr>"

definition broken :: js_error where
  "broken = \<lparr> e_name = js ''TypeError'', e_message = js ''x is undefined'' \<rparr>"

definition stage_call :: "handler \<Rightarrow> command_context \<Rightarrow> invocation" where
  "stage_call h this =
     (if h_id h = 4 then Threw not_found this
      else if h_id h = 5 then Threw broken this
      else Returned (Plain PUndefined) this)"

definition stage_server :: server where
  "stage_server = bare_server
     \<lparr> Chat_commands := demo_commands @
         [(js ''boom'', Fn \<lparr>h_id = 4, h_broadcastable = True\<rparr>),
          (js ''crash'', Fn \<lparr>h_id = 5, h_broadcastable = True\<rparr>)],
       call_handler := stage_call \<rparr>"
















section \<open>The filter chain\<close>

lemma filter_calls_Cons:
  "snd (filter_loop (f # fs) orig t) =
     (case f t orig of
        OutFalse \<Rightarrow> [t] | OutNull \<Rightarrow> [t]
      | OutString s \<Rightarrow> if s = [] then [t] else t # snd (filter_loop fs orig s)
      | OutUndefined \<Rightarrow> t # snd (filter_loop fs orig t))"
  by (simp split: filter_output.split prod.split)

lemma filter_result_Cons:
  "fst (filter_loop (f # fs) orig t) =
     (case f t orig of
        OutFalse \<Rightarrow> None | OutNull \<Rightarrow> None
      | OutString s \<Rightarrow> if s = [] then Some [] else fst (filter_loop fs orig s)
      | OutUndefined \<Rightarrow> fst (filter_loop fs orig t))"
  by (simp split: filter_output.split prod.split)

lemma filter_loop_blank:
  "k < length (snd (filter_loop fs orig t)) \<Longrightarrow>
   (fs ! k) (snd (filter_loop fs orig t) ! k) orig = OutString [] \<Longrightarrow>
   Suc k = length (snd (filter_loop fs orig t)) \<and> fst (filter_loop fs orig t) = Some []"
proof (induction fs arbitrary: t k)
  case Nil
  then show ?case by simp
next
  case (Cons f fs)
  show ?case
  proof (cases k)
    case 0
    with Cons.prems show ?thesis
      by (cases "f t orig")
         (simp_all add: filter_calls_Cons filter_result_Cons del: filter_loop.simps split: if_splits)
  next
    case (Suc j)
    with Cons.prems Cons.IH[of j] show ?thesis
      by (cases "f t orig")
         (simp_all add: filter_calls_Cons filter_result_Cons del: filter_loop.simps split: if_splits)
  qed
qed

lemma filter_loop_never_blank:
  "t \<noteq> [] \<Longrightarrow> [] \<notin> set (snd (filter_loop fs orig t))"
proof (induction fs arbitrary: t)
  case Nil
  then show ?case by simp
next
  case (Cons f fs)
  show ?case
    using Cons.prems Cons.IH
    by (cases "f t orig") (simp_all add: filter_calls_Cons del: filter_loop.simps)
qed

text \<open>
  C4 (amended). In a chain of at least two filters: when the first filter returns
  \<open>false\<close>, \<open>Chat.filter\<close> returns \<open>null\<close> and only the first filter was called; when
  the first filter returns a non-empty replacement string, the second filter is called
  with the replacement.
\<close>

theorem C4_first_filter_decides:
  "(f1 m m = OutFalse \<longrightarrow>
      Chat_filter (f1 # f2 # fs) m = None \<and> filter_calls (f1 # f2 # fs) m = [m])
   \<and> (f1 m m = OutString s \<and> s \<noteq> [] \<longrightarrow> take 2 (filter_calls (f1 # f2 # fs) m) = [m, s])"
  by (cases "f2 s m")
     (simp_all add: Chat_filter_def filter_calls_def filter_calls_Cons filter_result_Cons
        del: filter_loop.simps)

theorem C4_first_filter_decides_witness:
  "suppress_filter (js ''hi'') (js ''hi'') = OutFalse
   \<and> Chat_filter [suppress_filter, shout_filter] (js ''hi'') = None
   \<and> filter_calls [suppress_filter, shout_filter] (js ''hi'') = [js ''hi'']
   \<and> shout_filter (js ''hi'') (js ''hi'') = OutString (js ''hi!'') \<and> js ''hi!'' \<noteq> []
   \<and> take 2 (filter_calls [shout_filter, no_opinion_filter] (js ''hi'')) = [js ''hi'', js ''hi!'']"
  using C4_first_filter_decides [of suppress_filter "js ''hi''" shout_filter "[]" "js ''hi!''"]
        C4_first_filter_decides [of shout_filter "js ''hi''" no_opinion_filter "[]" "js ''hi!''"]
  by (simp add: suppress_filter_def shout_filter_def js_def)

text \<open>
  C4 as stated fails for the replacement string \<open>''\<close>: the second filter is not called.
\<close>

theorem C4_counterexample:
  "blank_filter (js ''hi'') (js ''hi'') = OutString []
   \<and> filter_calls [blank_filter, shout_filter] (js ''hi'') = [js ''hi'']"
  by (simp add: filter_calls_def blank_filter_def)

text \<open>
  C10. When a filter that is called returns the empty string, it is the last filter
  called and \<open>Chat.filter\<close> returns the empty string, which is falsy; and a chain that
  starts from a non-empty message never hands the empty string to a filter.
\<close>

theorem C10_blank_output_stops_chain:
  "(\<forall>k < length (filter_calls fs m).
      (fs ! k) (filter_calls fs m ! k) m = OutString [] \<longrightarrow>
      Suc k = length (filter_calls fs m) \<and> Chat_filter fs m = Some []
      \<and> \<not> truthy (Chat_filter fs m))
   \<and> (m \<noteq> [] \<longrightarrow> [] \<notin> set (filter_calls fs m))"
  using filter_loop_blank [of _ fs m m] filter_loop_never_blank [of m fs m]
  by (simp add: Chat_filter_def filter_calls_def truthy_def)

theorem C10_blank_output_stops_chain_witness:
  "0 < length (filter_calls [blank_filter, shout_filter] (js ''hi''))
   \<and> ([blank_filter, shout_filter] ! 0) (filter_calls [blank_filter, shout_filter] (js ''hi'') ! 0) (js ''hi'')
       = OutString []
   \<and> Suc 0 = length (filter_calls [blank_filter, shout_filter] (js ''hi''))
   \<and> Chat_filter [blank_filter, shout_filter] (js ''hi'') = Some []
   \<and> js ''hi'' \<noteq> [] \<and> [] \<notin> set (filter_calls [blank_filter, shout_filter] (js ''hi''))"
  using C10_blank_output_stops_chain [of "[blank_filter, shout_filter]" "js ''hi''"]
  by (simp add: filter_calls_def blank_filter_def js_def)

section \<open>The length ceiling\<close>

lemma talk_text_TooLong:
  "fst (talk_text srv now ctx m room target) = Reject TooLong \<longleftrightarrow>
     m \<noteq> [] \<and> MAX_MESSAGE_LENGTH < weighted_length m \<and> \<not> u_can (c_user ctx) Ignorelimits None"
  by (auto simp add: talk_text_def Let_def split: option.splits)

lemma talk_text_long_rejects:
  "MAX_MESSAGE_LENGTH < weighted_length m \<Longrightarrow> \<not> u_can (c_user ctx) Ignorelimits None \<Longrightarrow>
   \<exists>why. fst (talk_text srv now ctx m room target) = Reject why"
  by (simp add: talk_text_def Let_def)

lemma weighted_replicate: "weighted_length (replicate n 65021) = 11 * n"
  by (simp add: weighted_length_def)

text \<open>
  C2 (amended). For a non-empty message and a user without \<open>ignorelimits\<close>: a rejection
  as too long only happens above the ceiling of 300; above the ceiling \<open>canTalk\<close>
  rejects; and for a user who passes the checks that come first (a name, then lock,
  mute, modchat, membership and PM standing) the rejection is as too long exactly when
  the weighted length exceeds 300. Fifty format-control characters weigh 550.
\<close>

theorem C2_weighted_length_ceiling:
  assumes "m \<noteq> []" and "\<not> u_can (c_user ctx) Ignorelimits None"
  shows "(fst (canTalk srv now ctx (Some m) room target) = Reject TooLong \<longrightarrow> 300 < weighted_length m)
    \<and> (300 < weighted_length m \<longrightarrow> (\<exists>why. fst (canTalk srv now ctx (Some m) room target) = Reject why))
    \<and> (standing srv (c_user ctx) (talk_room ctx room target) (talk_target ctx target) = None \<longrightarrow>
         (fst (canTalk srv now ctx (Some m) room target) = Reject TooLong \<longleftrightarrow> 300 < weighted_length m))
    \<and> length (replicate 50 (65021::nat)) < 300 \<and> weighted_length (replicate 50 65021) = 550"
proof -
  let ?st = "standing srv (c_user ctx) (talk_room ctx room target) (talk_target ctx target)"
  have a: "fst (canTalk srv now ctx (Some m) room target) = Reject TooLong \<longrightarrow> 300 < weighted_length m"
  proof (cases ?st)
    case None
    then show ?thesis
      using talk_text_TooLong [of srv now ctx m]
      by (simp add: canTalk_def Let_def MAX_MESSAGE_LENGTH_def)
  next
    case (Some why)
    have "why \<noteq> TooLong"
      using Some
      by (auto simp add: standing_def standing_in_room_def standing_in_PM_def
          split: if_splits option.splits)
    with Some show ?thesis by (simp add: canTalk_def Let_def)
  qed
  have b: "300 < weighted_length m \<longrightarrow>
      (\<exists>why. fst (canTalk srv now ctx (Some m) room target) = Reject why)"
  proof (cases ?st)
    case None
    then show ?thesis
      using talk_text_long_rejects [of m ctx srv now] assms(2)
      by (simp add: canTalk_def Let_def MAX_MESSAGE_LENGTH_def)
  next
    case (Some why)
    then show ?thesis by (simp add: canTalk_def Let_def)
  qed
  have c: "?st = None \<longrightarrow>
      (fst (canTalk srv now ctx (Some m) room target) = Reject TooLong \<longleftrightarrow> 300 < weighted_length m)"
    using assms talk_text_TooLong [of srv now ctx m]
    by (simp add: canTalk_def Let_def MAX_MESSAGE_LENGTH_def)
  show ?thesis using a b c by (simp add: weighted_replicate)
qed

lemma alice_stands_in_tavern:
  "standing bare_server alice (Some tavern) None = None"
  by (simp add: standing_def standing_in_room_def alice_def tavern_def js_def)

theorem C2_weighted_length_ceiling_witness:
  "replicate 50 (65021::nat) \<noteq> []
   \<and> \<not> u_can (c_user (new_context (replicate 50 65021) (Some tavern) alice)) Ignorelimits None
   \<and> 300 < weighted_length (replicate 50 65021)
   \<and> standing bare_server alice (Some tavern) None = None
   \<and> fst (canTalk bare_server 0 (new_context (replicate 50 65021) (Some tavern) alice)
            (Some (replicate 50 65021)) None None) = Reject TooLong"
  using C2_weighted_length_ceiling [of "replicate 50 65021"
          "new_context (replicate 50 65021) (Some tavern) alice" bare_server 0 None None]
        alice_stands_in_tavern
  by (simp add: new_context_def CommandContext_def talk_room_def talk_target_def alice_def weighted_replicate)

text \<open>
  C2 as stated fails for a user who has not chosen a name: a message above the ceiling
  is rejected for the missing name, not as too long.
\<close>

theorem C2_counterexample:
  "replicate 301 (97::nat) \<noteq> [] \<and> \<not> u_can guest Ignorelimits None
   \<and> 300 < weighted_length (replicate 301 97)
   \<and> fst (canTalk bare_server 0 (new_context (replicate 301 97) (Some tavern) guest)
            (Some (replicate 301 97)) None None) = Reject NoName"
  by (simp add: canTalk_def standing_def new_context_def CommandContext_def guest_def alice_def weighted_length_def)

section \<open>The high-traffic minimum\<close>

text \<open>
  C9 (the code departs from it). In a high-traffic room, from a user without \<open>show\<close>,
  the message \<open>1a1\<close> has the single letter \<open>a\<close>, and \<open>canTalk\<close> accepts it: the pattern
  \<open>/[^a-z]+/\<close> has no \<open>g\<close> flag, so only the first run of non-letters is removed before
  the length is compared with 2.
\<close>

theorem C9_one_letter_accepted:
  "r_highTraffic arena \<and> \<not> u_can alice Show (Some (r_roomid arena))
   \<and> filter (\<lambda>c. is_lower c \<or> is_upper c) (js ''1a1'') = js ''a''
   \<and> highTraffic_letters bare_server (js ''1a1'') = js ''a1''
   \<and> fst (canTalk bare_server 0 (new_context (js ''1a1'') (Some arena) alice)
            (Some (js ''1a1'')) None None) = Says (Some (js ''1a1''))"
  by (simp add: js_def canTalk_def talk_text_def talk_room_def talk_target_def standing_def
      standing_in_room_def new_context_def CommandContext_def alice_def arena_def tavern_def bare_server_def
      weighted_length_def MAX_MESSAGE_LENGTH_def strip_runs_def is_zalgo_def is_banned_char_def
      checkFormat_def checkSlowchat_def checkBanwords_def checkGameFilter_def
      highTraffic_letters_def Dex_toID_def ascii_lower_def
      remove_first_run_def is_lower_def is_digit_def is_upper_def Let_def)

section \<open>The broadcast cooldown\<close>

lemma canBroadcast_room:
  "c_room (snd (canBroadcast srv now ctx ic sm)) = c_room ctx"
  by (simp add: canBroadcast_def Let_def split: prod.splits)

lemma runBroadcast_stores:
  assumes "runBroadcast srv t ctx False sm = (None, ctx')"
    and "shouldBroadcast ctx" and "\<not> c_broadcasting ctx" and "c_room ctx = Some r"
  shows "\<exists>r'. c_room ctx' = Some r' \<and> r_lastBroadcast r' = c_broadcastMessage ctx'
          \<and> r_lastBroadcastTime r' = t \<and> r_roomid r' = r_roomid r"
proof (cases "c_broadcastMessage ctx = []")
  case True
  obtain d ctx1 where cb: "canBroadcast srv t ctx False sm = (d, ctx1)" by (cases "canBroadcast srv t ctx False sm")
  have r1: "c_room ctx1 = Some r" using canBroadcast_room[of srv t ctx False sm] cb assms(4) by simp
  show ?thesis using assms True cb r1
    by (cases d) (auto simp add: runBroadcast_def Let_def)
next
  case False
  then show ?thesis using assms by (auto simp add: runBroadcast_def Let_def)
qed

lemma runBroadcast_cooldown:
  assumes "shouldBroadcast ctx" "\<not> c_broadcasting ctx" "c_broadcastMessage ctx = []"
    and "c_room ctx = Some r" and "\<not> u_can (c_user ctx) Bypassall None"
    and "r_lastBroadcast r = normalize_broadcast srv (broadcast_text ctx sm)"
    and "now \<le> r_lastBroadcastTime r + 20000"
  shows "fst (runBroadcast srv now ctx False sm) =
     (if u_can (c_user ctx) Show (Some (r_roomid r)) then Some JustBroadcasted else Some NeedsVoice)"
  using assms
  by (simp add: runBroadcast_def canBroadcast_def Let_def BROADCAST_COOLDOWN_def)

lemma runBroadcast_after:
  assumes "shouldBroadcast ctx" "\<not> c_broadcasting ctx" "c_broadcastMessage ctx = []"
    and "c_room ctx = Some r"
    and "r_lastBroadcastTime r + 20000 < now"
  shows "fst (runBroadcast srv now ctx False sm) = None \<longleftrightarrow>
     u_can (c_user ctx) Show (Some (r_roomid r))
     \<and> \<not> talk_falsy (fst (canTalk srv now ctx (Some (broadcast_text ctx sm)) None None))"
  using assms
  by (auto simp add: runBroadcast_def canBroadcast_def Let_def BROADCAST_COOLDOWN_def split: prod.splits)

lemma runBroadcast_fresh_key:
  assumes "runBroadcast srv t ctx False sm = (None, ctx')"
    and "shouldBroadcast ctx" and "\<not> c_broadcasting ctx" and "c_broadcastMessage ctx = []"
  shows "c_broadcastMessage ctx' = normalize_broadcast srv (broadcast_text ctx sm)"
  using assms
  by (auto simp add: runBroadcast_def canBroadcast_def Let_def
      split: if_splits prod.splits option.splits)

text \<open>
  C3 (amended). A first broadcast invocation, from a fresh context in a room at time
  \<open>t\<close> with \<open>ignoreCooldown\<close> false, that succeeds stores its normalized text and \<open>t\<close>
  on the room. A second broadcast invocation in that room whose normalized text is the
  same, by a user without \<open>bypassall\<close>, is rejected at any time up to \<open>t\<close> plus 20
  seconds (as just broadcasted, or for the missing \<open>show\<close> capability). Later than that
  the cooldown lets it through, and it succeeds exactly when the user holds \<open>show\<close> in
  the room and \<open>canTalk\<close> accepts the invocation text.
\<close>

theorem C3_broadcast_cooldown:
  assumes "runBroadcast srv t ctx1 False sm1 = (None, ctx1')"
    and "shouldBroadcast ctx1" and "\<not> c_broadcasting ctx1" and "c_broadcastMessage ctx1 = []"
    and "c_room ctx1 = Some r1"
    and "shouldBroadcast ctx2" and "\<not> c_broadcasting ctx2" and "c_broadcastMessage ctx2 = []"
    and "c_room ctx2 = c_room ctx1'"
    and "\<not> u_can (c_user ctx2) Bypassall None"
    and "normalize_broadcast srv (broadcast_text ctx2 sm2)
           = normalize_broadcast srv (broadcast_text ctx1 sm1)"
  shows "(\<exists>r'. c_room ctx1' = Some r'
            \<and> r_lastBroadcast r' = normalize_broadcast srv (broadcast_text ctx1 sm1)
            \<and> r_lastBroadcastTime r' = t)
    \<and> (t' \<le> t + 20000 \<longrightarrow>
           fst (runBroadcast srv t' ctx2 False sm2) =
             (if u_can (c_user ctx2) Show (Some (r_roomid r1)) then Some JustBroadcasted
              else Some NeedsVoice))
    \<and> (t + 20000 < t' \<longrightarrow>
          (fst (runBroadcast srv t' ctx2 False sm2) = None \<longleftrightarrow>
             u_can (c_user ctx2) Show (Some (r_roomid r1))
             \<and> \<not> talk_falsy (fst (canTalk srv t' ctx2 (Some (broadcast_text ctx2 sm2)) None None))))"
proof -
  obtain r' where r': "c_room ctx1' = Some r'" "r_lastBroadcast r' = c_broadcastMessage ctx1'"
      "r_lastBroadcastTime r' = t" "r_roomid r' = r_roomid r1"
    using runBroadcast_stores [OF assms(1-3) assms(5)] by blast
  have key: "c_broadcastMessage ctx1' = normalize_broadcast srv (broadcast_text ctx1 sm1)"
    using runBroadcast_fresh_key [OF assms(1-4)] .
  have stored: "\<exists>r'. c_room ctx1' = Some r'
            \<and> r_lastBroadcast r' = normalize_broadcast srv (broadcast_text ctx1 sm1)
            \<and> r_lastBroadcastTime r' = t"
    using r' key by simp
  have room2: "c_room ctx2 = Some r'" using assms(9) r'(1) by simp
  have same: "r_lastBroadcast r' = normalize_broadcast srv (broadcast_text ctx2 sm2)"
    using r'(2) key assms(11) by simp
  have a: "t' \<le> t + 20000 \<longrightarrow>
      fst (runBroadcast srv t' ctx2 False sm2) =
        (if u_can (c_user ctx2) Show (Some (r_roomid r1)) then Some JustBroadcasted
         else Some NeedsVoice)"
    using runBroadcast_cooldown [OF assms(6-8) room2 assms(10) same, of t'] r'(3,4) by simp
  have b: "t + 20000 < t' \<longrightarrow>
      (fst (runBroadcast srv t' ctx2 False sm2) = None \<longleftrightarrow>
         u_can (c_user ctx2) Show (Some (r_roomid r1))
         \<and> \<not> talk_falsy (fst (canTalk srv t' ctx2 (Some (broadcast_text ctx2 sm2)) None None)))"
    using runBroadcast_after [OF assms(6-8) room2, of t' srv sm2] r'(3,4) by simp
  show ?thesis using stored a b by simp
qed

lemma broadcast_context_fields:
  "c_user (broadcast_context m r u) = u"
  "c_room (broadcast_context m r u) = r"
  "c_pmTarget (broadcast_context m r u) = None"
  "c_message (broadcast_context m r u) = m"
  "c_broadcasting (broadcast_context m r u) = False"
  "c_broadcastMessage (broadcast_context m r u) = []"
  "shouldBroadcast (broadcast_context m r u)"
  by (simp_all add: broadcast_context_def new_context_def CommandContext_def shouldBroadcast_def BROADCAST_TOKEN_def)

lemma norm_pikachu: "normalize_broadcast bare_server pikachu = js ''!data pikachu''"
  by (simp add: normalize_broadcast_def bare_server_def ascii_lower_def pikachu_def js_def
      is_lower_def is_digit_def is_space_def)

lemmas talk_eval = js_def canTalk_def talk_text_def talk_room_def talk_target_def
  standing_def standing_in_room_def broadcast_context_def new_context_def CommandContext_def voiced_def alice_def
  tavern_def lobby_def bare_server_def weighted_length_def MAX_MESSAGE_LENGTH_def strip_runs_def
  is_zalgo_def is_banned_char_def checkFormat_def checkSlowchat_def checkBanwords_def
  checkGameFilter_def Let_def heard_def aired_def MESSAGE_COOLDOWN_def trim_def is_space_def

lemma talk_tavern_first:
  "canTalk bare_server 1000000 (broadcast_context pikachu (Some tavern) voiced) (Some pikachu) None None
     = (Says (Some pikachu), heard voiced 1000000)"
  by (simp add: pikachu_def talk_eval)

lemma talk_lobby_first:
  "canTalk bare_server 1000000 (broadcast_context pikachu (Some lobby) voiced) (Some pikachu) None None
     = (Says (Some pikachu), heard voiced 1000000)"
  by (simp add: pikachu_def talk_eval)

lemma talk_tavern_second:
  "canTalk bare_server 1021000 (broadcast_context pikachu (Some (aired tavern 1000000)) (heard voiced 1000000))
      (Some pikachu) None None
     = (Says (Some pikachu), heard voiced 1021000)"
  by (simp add: pikachu_def talk_eval)

lemma talk_lobby_second:
  "canTalk bare_server 1021000 (broadcast_context pikachu (Some (aired lobby 1000000)) (heard voiced 1000000))
      (Some pikachu) None None
     = (Reject Duplicate, heard voiced 1000000)"
  by (simp add: pikachu_def talk_eval)

lemma voiced_show: "u_can voiced Show x" "\<not> u_can voiced Bypassall x" 
   "u_can (heard voiced t) Show x" "\<not> u_can (heard voiced t) Bypassall x" 
  by (simp_all add: voiced_def heard_def)

lemma pikachu_truthy: "\<not> talk_falsy (Says (Some pikachu))"
  by (simp add: talk_falsy_def truthy_def pikachu_def js_def)

lemma quiet_rooms:
  "r_lastBroadcast tavern = []" "r_lastBroadcast lobby = []"
  "js ''!data pikachu'' \<noteq> []" "[] \<noteq> js ''!data pikachu''"
  by (simp_all add: tavern_def lobby_def js_def)

lemma first_tavern:
  "runBroadcast bare_server 1000000 (broadcast_context pikachu (Some tavern) voiced) False None
     = (None, (broadcast_context pikachu (Some tavern) voiced)
         \<lparr>c_user := heard voiced 1000000, c_message := pikachu,
           c_broadcastMessage := js ''!data pikachu'', c_broadcasting := True,
           c_room := Some (aired tavern 1000000)\<rparr>)"
  by (simp add: runBroadcast_def canBroadcast_def broadcast_context_fields broadcast_text_def
      norm_pikachu talk_tavern_first voiced_show pikachu_truthy aired_def
      BROADCAST_COOLDOWN_def Let_def quiet_rooms)

lemma first_lobby:
  "runBroadcast bare_server 1000000 (broadcast_context pikachu (Some lobby) voiced) False None
     = (None, (broadcast_context pikachu (Some lobby) voiced)
         \<lparr>c_user := heard voiced 1000000, c_message := pikachu,
           c_broadcastMessage := js ''!data pikachu'', c_broadcasting := True,
           c_room := Some (aired lobby 1000000)\<rparr>)"
  by (simp add: runBroadcast_def canBroadcast_def broadcast_context_fields broadcast_text_def
      norm_pikachu talk_lobby_first voiced_show pikachu_truthy aired_def
      BROADCAST_COOLDOWN_def Let_def quiet_rooms)

lemma aired_fields:
  "r_lastBroadcast (aired r t) = js ''!data pikachu''" "r_lastBroadcastTime (aired r t) = t"
  "r_roomid (aired r t) = r_roomid r"
  by (simp_all add: aired_def)

text \<open>
  C3 as stated fails in the lobby: 21 seconds after a successful broadcast, the same
  invocation by the same user is still rejected, by the duplicate-message check of
  \<open>canTalk\<close>.
\<close>

theorem C3_counterexample:
  "fst (runBroadcast bare_server 1000000 (broadcast_context pikachu (Some lobby) voiced) False None) = None
   \<and> c_room (snd (runBroadcast bare_server 1000000 (broadcast_context pikachu (Some lobby) voiced) False None))
       = Some (aired lobby 1000000)
   \<and> c_user (snd (runBroadcast bare_server 1000000 (broadcast_context pikachu (Some lobby) voiced) False None))
       = heard voiced 1000000
   \<and> \<not> u_can (heard voiced 1000000) Bypassall None
   \<and> fst (runBroadcast bare_server 1021000
         (broadcast_context pikachu (Some (aired lobby 1000000)) (heard voiced 1000000)) False None)
       = Some CannotTalk"
  by (simp add: first_lobby voiced_show)
     (simp add: runBroadcast_def canBroadcast_def broadcast_context_fields broadcast_text_def
      norm_pikachu voiced_show aired_fields BROADCAST_COOLDOWN_def Let_def
      talk_lobby_second talk_falsy_def split: prod.split)

theorem C3_broadcast_cooldown_witness:
  "runBroadcast bare_server 1000000 (broadcast_context pikachu (Some tavern) voiced) False None
     = (None, snd (runBroadcast bare_server 1000000 (broadcast_context pikachu (Some tavern) voiced) False None))
   \<and> normalize_broadcast bare_server
        (broadcast_text (broadcast_context pikachu (Some (aired tavern 1000000)) (heard voiced 1000000)) None)
      = normalize_broadcast bare_server (broadcast_text (broadcast_context pikachu (Some tavern) voiced) None)
   \<and> c_room (snd (runBroadcast bare_server 1000000 (broadcast_context pikachu (Some tavern) voiced) False None))
      = Some (aired tavern 1000000)
   \<and> fst (runBroadcast bare_server 1020000
         (broadcast_context pikachu (Some (aired tavern 1000000)) (heard voiced 1000000)) False None)
       = Some JustBroadcasted
   \<and> fst (runBroadcast bare_server 1021000
         (broadcast_context pikachu (Some (aired tavern 1000000)) (heard voiced 1000000)) False None)
       = None"
  using C3_broadcast_cooldown [of bare_server 1000000 "broadcast_context pikachu (Some tavern) voiced" None
           "snd (runBroadcast bare_server 1000000 (broadcast_context pikachu (Some tavern) voiced) False None)"
           tavern "broadcast_context pikachu (Some (aired tavern 1000000)) (heard voiced 1000000)" None
           1020000]
        C3_broadcast_cooldown [of bare_server 1000000 "broadcast_context pikachu (Some tavern) voiced" None
           "snd (runBroadcast bare_server 1000000 (broadcast_context pikachu (Some tavern) voiced) False None)"
           tavern "broadcast_context pikachu (Some (aired tavern 1000000)) (heard voiced 1000000)" None
           1021000]
  by (simp add: first_tavern broadcast_context_fields voiced_show norm_pikachu broadcast_text_def
        talk_tavern_second pikachu_truthy)

section \<open>The command resolver\<close>

lemma trim_nonspace: "\<not> is_space c \<Longrightarrow> trim (c # xs) \<noteq> []"
  by (auto simp add: trim_def dropWhile_eq_Nil_conv)

lemma token_not_space: "tok = 47 \<or> tok = 33 \<Longrightarrow> \<not> is_space tok"
  by (auto simp add: is_space_def)

lemma plain_verb_chars:
  "plain_verb v \<Longrightarrow> c \<in> set v \<Longrightarrow> is_alnum c \<and> c \<noteq> 32 \<and> c \<noteq> 47 \<and> c \<noteq> 33 \<and> c \<noteq> 44"
  by (auto simp add: plain_verb_def is_alnum_def is_lower_def is_digit_def)

lemma indexOf_absent: "c \<notin> set xs \<Longrightarrow> indexOf xs c = -1"
  by (induction xs) (auto simp add: Let_def)

lemma indexOf_first: "c \<notin> set xs \<Longrightarrow> indexOf (xs @ c # ys) c = int (length xs)"
  by (induction xs) (auto simp add: Let_def)

lemma js_literals:
  "js ''>> '' = [62, 62, 32]" "js ''>>> '' = [62, 62, 62, 32]"
  "js ''/me'' = [47, 109, 101]" "js ''/ME'' = [47, 77, 69]"
  "js ''/!'' = [47, 33]" "js ''!'' = [33]" "js '','' = [44]" "js '' '' = [32]"
  by (simp_all add: js_def)

lemma hardcoded_plain:
  assumes "tok = 47 \<or> tok = 33" and "plain_verb v" and "rest = [] \<or> hd rest = 32"
  shows "hardcoded (tok # v @ rest) = tok # v @ rest"
proof -
  have nme: "\<not> (startsWith (tok # v @ rest) [47, 109, 101] \<and> not_alnum_or_space (charAt (tok # v @ rest) 3))"
  proof (cases v)
    case Nil
    with assms(2) show ?thesis by (simp add: plain_verb_def)
  next
    case c1: (Cons a v1)
    show ?thesis
    proof (cases v1)
      case Nil
      with c1 assms(3) show ?thesis by (cases rest) (auto simp add: startsWith_def)
    next
      case c2: (Cons b v2)
      show ?thesis
      proof (cases v2)
        case Nil
        with c1 c2 assms(3) show ?thesis
          by (cases rest) (auto simp add: startsWith_def charAt_def not_alnum_or_space_def)
      next
        case (Cons c v3)
        with c1 c2 plain_verb_chars [OF assms(2), of c] show ?thesis
          by (auto simp add: startsWith_def charAt_def not_alnum_or_space_def)
      qed
    qed
  qed
  have nME: "\<not> startsWith (tok # v @ rest) [47, 77, 69]"
  proof (cases v)
    case Nil
    with assms(2) show ?thesis by (simp add: plain_verb_def)
  next
    case (Cons a v1)
    with plain_verb_chars [OF assms(2), of a] assms(2) show ?thesis
      by (auto simp add: startsWith_def plain_verb_def is_lower_def is_digit_def)
  qed
  show ?thesis
    using assms(1) nme nME
    by (auto simp add: hardcoded_def js_literals startsWith_def)
qed

lemma split_command_plain:
  assumes "plain_verb v" and "lower v = v" and "tok \<noteq> 32"
  shows "split_command lower (tok # v) = (v, [])"
    and "split_command lower (tok # v @ 32 # x) = (v, trim x)"
proof -
  have ns: "32 \<notin> set v" using plain_verb_chars [OF assms(1)] by blast
  have nc: "\<not> endsWith v [44]"
  proof
    assume "endsWith v [44]"
    then have "44 \<in> set (drop (length v - 1) v)" by (simp add: endsWith_def)
    then have "44 \<in> set v" by (rule in_set_dropD)
    then show False using plain_verb_chars [OF assms(1)] by blast
  qed
  show "split_command lower (tok # v) = (v, [])"
    using ns nc assms(2,3) indexOf_absent [of 32 v]
    by (simp add: split_command_def Let_def js_literals)
  have i: "indexOf (tok # v @ 32 # x) 32 = int (length v) + 1"
    using indexOf_first [of 32 v x] ns assms(3) by (simp add: Let_def)
  have n: "nat (int (length v) + 1) = Suc (length v)" by simp
  have cmd: "drop 1 (take (Suc (length v)) (tok # v @ 32 # x)) = v" by simp
  have tgt: "drop (Suc (length v) + 1) (tok # v @ 32 # x) = x" by simp
  show "split_command lower (tok # v @ 32 # x) = (v, trim x)"
    unfolding split_command_def Let_def i n cmd tgt
    using nc assms(2) by (simp add: js_literals)
qed

lemma descend_alias:
  assumes "map_of curCommands v = Some (Str w)" and "map_of curCommands w = Some (Fn h)"
  shows "descend lower recursing curCommands v target fullCmd
     = Walked v target fullCmd (Some (Fn h)) curCommands"
  using assms by (simp add: descend.simps look_up_def)

lemma descend_handler:
  assumes "map_of curCommands w = Some (Fn h)"
  shows "descend lower recursing curCommands w target fullCmd
     = Walked w target fullCmd (Some (Fn h)) curCommands"
  using assms by (simp add: descend.simps look_up_def)


lemma resolve_preamble:
  assumes "tok = 47 \<or> tok = 33" and "plain_verb v" and "rest = [] \<or> hd rest = 32"
  shows "resolve srv (tok # v @ rest) recursing =
     (case split_command (toLowerCase srv) (tok # v @ rest) of
        (cmd0, target0) \<Rightarrow>
          (case descend (toLowerCase srv) recursing (Chat_commands srv) cmd0 target0 cmd0 of
             HelpRedirect fullCmd \<Rightarrow> Redirect ([tok] @ js ''help '' @ slice_end fullCmd 4)
           | Walked cmd target fullCmd commandHandler0 curCommands \<Rightarrow>
               (let commandHandler = default_fallback commandHandler0 curCommands in
                case (if \<not> js_truthy commandHandler \<and> \<not> recursing
                      then group_shorthand (Config_groups srv) fullCmd target else None) of
                  Some m \<Rightarrow> Redirect m
                | None \<Rightarrow> Resolved \<lparr> d_cmd = cmd, d_cmdToken = [tok], d_target = target,
                            d_fullCmd = fullCmd, d_handler = commandHandler \<rparr>)))"
proof -
  obtain a v1 where v: "v = a # v1" using assms(2) by (cases v) (auto simp add: plain_verb_def)
  have a: "is_alnum a" "a \<noteq> tok" using plain_verb_chars [OF assms(2), of a] v assms(1) by auto
  have t: "trim (tok # v @ rest) \<noteq> []" using trim_nonspace token_not_space assms(1) by blast
  have h: "hardcoded (tok # v @ rest) = tok # v @ rest" using hardcoded_plain [OF assms] .
  have c0: "charAt (tok # v @ rest) 0 = [tok]" by (simp add: charAt_def)
  have c1: "charAt (tok # v @ rest) 1 = [a]" using v by (simp add: charAt_def)
  have inc: "js_includes VALID_COMMAND_TOKENS [tok]"
    using assms(1) by (auto simp add: VALID_COMMAND_TOKENS_def js_literals startsWith_def)
  show ?thesis
    unfolding resolve_def Let_def h c0 c1
    using t a inc by (simp add: not_alnum_def)
qed


lemma run_resolved:
  "resolve srv m r = Resolved d \<Longrightarrow> parseCommand_run srv m r = (Some d, [(m, r)])"
  by (subst parseCommand_run.simps) simp






text \<open>
  C6 (amended). When the entry of verb \<open>V\<close> is the alias string naming \<open>W\<close> and the entry
  of \<open>W\<close> is a handler, \<open>/V x\<close> and \<open>/W x\<close> resolve to descriptors with the same
  \<open>cmdToken\<close>, the same \<open>target\<close> and the same \<open>handler\<close>; \<open>cmd\<close> and \<open>fullCmd\<close> hold
  the verb as it was typed, \<open>V\<close> in the one and \<open>W\<close> in the other.
\<close>

theorem C6_alias_resolves_to_handler:
  assumes "plain_verb V" and "plain_verb W"
    and "toLowerCase srv V = V" and "toLowerCase srv W = W"
    and "map_of (Chat_commands srv) V = Some (Str W)"
    and "map_of (Chat_commands srv) W = Some (Fn h)"
  shows "parseCommand srv (js ''/'' @ V @ js '' '' @ x) False =
           Some \<lparr> d_cmd = V, d_cmdToken = js ''/'', d_target = trim x, d_fullCmd = V,
                  d_handler = Some (Fn h) \<rparr>
       \<and> parseCommand srv (js ''/'' @ W @ js '' '' @ x) False =
           Some \<lparr> d_cmd = W, d_cmdToken = js ''/'', d_target = trim x, d_fullCmd = W,
                  d_handler = Some (Fn h) \<rparr>"
proof -
  have slash: "js ''/'' = [47]" by (simp add: js_def)
  have rV: "resolve srv (47 # V @ 32 # x) False =
      Resolved \<lparr> d_cmd = V, d_cmdToken = [47], d_target = trim x, d_fullCmd = V,
                 d_handler = Some (Fn h) \<rparr>"
    using resolve_preamble [of 47 V "32 # x" srv False] assms(1)
      split_command_plain(2) [of V "toLowerCase srv" 47 x] assms(3)
      descend_alias [OF assms(5) assms(6)]
    by (simp add: default_fallback_def js_truthy_def js_literals)
  have rW: "resolve srv (47 # W @ 32 # x) False =
      Resolved \<lparr> d_cmd = W, d_cmdToken = [47], d_target = trim x, d_fullCmd = W,
                 d_handler = Some (Fn h) \<rparr>"
    using resolve_preamble [of 47 W "32 # x" srv False] assms(2)
      split_command_plain(2) [of W "toLowerCase srv" 47 x] assms(4)
      descend_handler [OF assms(6)]
    by (simp add: default_fallback_def js_truthy_def js_literals)
  show ?thesis
    using run_resolved [OF rV] run_resolved [OF rW]
    by (simp add: parseCommand_def slash js_literals)
qed












section \<open>Dispatch, errors and recursion depth\<close>







text \<open>
  C1 (the code departs from it). A spawned subcontext always has recursion depth 1,
  whatever the depth of its parent, and \<open>parse\<close> never throws: the eleventh context of
  a chain has depth 1, and so has the child of a context of depth 10.
\<close>

theorem C1_child_depth_is_always_one:
  "(\<forall>this msg quiet. \<exists>subcontext. spawn_subcontext this msg quiet = Inr subcontext
        \<and> c_recursionDepth subcontext = 1)
   \<and> (\<forall>srv now this msg quiet. \<exists>outcome. parse srv now this msg quiet = Inr outcome)
   \<and> map_sum id c_recursionDepth
        (spawn_chain 11 (js ''/help'') (new_context (js ''/help'') (Some tavern) alice)) = Inr 1
   \<and> map_sum id c_recursionDepth
        (spawn_subcontext ((new_context (js ''/help'') (Some tavern) alice)\<lparr>c_recursionDepth := 10\<rparr>)
           (js ''/help'') False) = Inr 1"
proof -
  have a: "\<forall>this msg quiet. \<exists>subcontext. spawn_subcontext this msg quiet = Inr subcontext
        \<and> c_recursionDepth subcontext = 1"
    by (simp add: spawn_subcontext_def CommandContext_def Let_def MAX_PARSE_RECURSION_def)
  have b: "\<forall>srv now this msg quiet. \<exists>outcome. parse srv now this msg quiet = Inr outcome"
  proof (intro allI)
    fix srv now this msg quiet
    obtain subcontext where "spawn_subcontext this msg quiet = Inr subcontext"
      using a by blast
    then have "parse srv now this msg quiet = Inr (parse_context srv now subcontext)"
      by (simp add: parse_def)
    then show "\<exists>outcome. parse srv now this msg quiet = Inr outcome"
      by (rule exI)
  qed
  have c: "map_sum id c_recursionDepth
        (spawn_chain 11 (js ''/help'') (new_context (js ''/help'') (Some tavern) alice)) = Inr 1"
    by (simp add: eval_nat_numeral spawn_subcontext_def CommandContext_def new_context_def
        Let_def MAX_PARSE_RECURSION_def)
  have d: "map_sum id c_recursionDepth
        (spawn_subcontext ((new_context (js ''/help'') (Some tavern) alice)\<lparr>c_recursionDepth := 10\<rparr>)
           (js ''/help'') False) = Inr 1"
    by (simp add: spawn_subcontext_def CommandContext_def new_context_def
        Let_def MAX_PARSE_RECURSION_def)
  show ?thesis using a b c d by blast
qed

lemma demo_verbs:
  "plain_verb (js ''data'')" "plain_verb (js ''dex'')" "plain_verb (js ''datahelp'')"
  "plain_verb (js ''boom'')" "plain_verb (js ''crash'')"
  by (simp_all add: plain_verb_def js_def is_lower_def is_digit_def)

lemma demo_lower:
  "ascii_lower (js ''data'') = js ''data''" "ascii_lower (js ''dex'') = js ''dex''"
  "ascii_lower (js ''datahelp'') = js ''datahelp''"
  "ascii_lower (js ''boom'') = js ''boom''" "ascii_lower (js ''crash'') = js ''crash''"
  by (simp_all add: ascii_lower_def js_def)

lemma server_fields:
  "toLowerCase demo_server = ascii_lower" "Chat_commands demo_server = demo_commands"
  "toLowerCase stage_server = ascii_lower"
  "call_handler stage_server = stage_call"
  "Chat_filters stage_server = []" "Chat_filters demo_server = []"
  by (simp_all add: demo_server_def stage_server_def bare_server_def)

lemma demo_entries:
  "map_of demo_commands (js ''dex'') = Some (Str (js ''data''))"
  "map_of demo_commands (js ''data'') = Some (Fn \<lparr>h_id = 1, h_broadcastable = True\<rparr>)"
  "map_of demo_commands (js ''datahelp'') =
     Some (Obj True [(js ''0'', Str (js ''/data [pokemon] - Shows data.'')), (js ''length'', Prim True)])"
  by (simp_all add: demo_commands_def js_def)
























section \<open>The doubled command token\<close>











section \<open>Aliases and help arrays\<close>

theorem C6_alias_resolves_to_handler_witness:
  "plain_verb (js ''dex'') \<and> plain_verb (js ''data'')
   \<and> toLowerCase demo_server (js ''dex'') = js ''dex''
   \<and> toLowerCase demo_server (js ''data'') = js ''data''
   \<and> map_of (Chat_commands demo_server) (js ''dex'') = Some (Str (js ''data''))
   \<and> map_of (Chat_commands demo_server) (js ''data'') = Some (Fn \<lparr>h_id = 1, h_broadcastable = True\<rparr>)
   \<and> parseCommand demo_server (js ''/'' @ js ''dex'' @ js '' '' @ js ''Pikachu'') False =
        Some \<lparr> d_cmd = js ''dex'', d_cmdToken = js ''/'', d_target = trim (js ''Pikachu''),
               d_fullCmd = js ''dex'', d_handler = Some (Fn \<lparr>h_id = 1, h_broadcastable = True\<rparr>) \<rparr>
   \<and> parseCommand demo_server (js ''/'' @ js ''data'' @ js '' '' @ js ''Pikachu'') False =
        Some \<lparr> d_cmd = js ''data'', d_cmdToken = js ''/'', d_target = trim (js ''Pikachu''),
               d_fullCmd = js ''data'', d_handler = Some (Fn \<lparr>h_id = 1, h_broadcastable = True\<rparr>) \<rparr>"
  using C6_alias_resolves_to_handler [of "js ''dex''" "js ''data''" demo_server "\<lparr>h_id = 1, h_broadcastable = True\<rparr>"
          "js ''Pikachu''"]
  by (simp add: demo_verbs server_fields demo_lower demo_entries)

lemma dex_data:
  "parseCommand demo_server (js ''/dex Pikachu'') False =
     Some \<lparr> d_cmd = js ''dex'', d_cmdToken = js ''/'', d_target = js ''Pikachu'',
            d_fullCmd = js ''dex'', d_handler = Some (Fn \<lparr>h_id = 1, h_broadcastable = True\<rparr>) \<rparr>"
  "parseCommand demo_server (js ''/data Pikachu'') False =
     Some \<lparr> d_cmd = js ''data'', d_cmdToken = js ''/'', d_target = js ''Pikachu'',
            d_fullCmd = js ''data'', d_handler = Some (Fn \<lparr>h_id = 1, h_broadcastable = True\<rparr>) \<rparr>"
proof -
  have v: "plain_verb (js ''dex'')" "plain_verb (js ''data'')" using demo_verbs by simp_all
  have t: "trim (js ''Pikachu'') = js ''Pikachu''" by (simp add: trim_def js_def is_space_def)
  have r1: "resolve demo_server (47 # js ''dex'' @ 32 # js ''Pikachu'') False =
      Resolved \<lparr> d_cmd = js ''dex'', d_cmdToken = [47], d_target = js ''Pikachu'',
                 d_fullCmd = js ''dex'', d_handler = Some (Fn \<lparr>h_id = 1, h_broadcastable = True\<rparr>) \<rparr>"
    using resolve_preamble [of 47 "js ''dex''" "32 # js ''Pikachu''" demo_server False] v(1)
      split_command_plain(2) [of "js ''dex''" ascii_lower 47 "js ''Pikachu''"]
      descend_alias [of demo_commands "js ''dex''" "js ''data''" _ ascii_lower False "js ''Pikachu''" "js ''dex''"]
    by (simp add: server_fields demo_lower demo_entries default_fallback_def js_truthy_def t)
  have r2: "resolve demo_server (47 # js ''data'' @ 32 # js ''Pikachu'') False =
      Resolved \<lparr> d_cmd = js ''data'', d_cmdToken = [47], d_target = js ''Pikachu'',
                 d_fullCmd = js ''data'', d_handler = Some (Fn \<lparr>h_id = 1, h_broadcastable = True\<rparr>) \<rparr>"
    using resolve_preamble [of 47 "js ''data''" "32 # js ''Pikachu''" demo_server False] v(2)
      split_command_plain(2) [of "js ''data''" ascii_lower 47 "js ''Pikachu''"]
      descend_handler [of demo_commands "js ''data''" _ ascii_lower False "js ''Pikachu''" "js ''data''"]
    by (simp add: server_fields demo_lower demo_entries default_fallback_def js_truthy_def t)
  have m1: "js ''/dex Pikachu'' = 47 # js ''dex'' @ 32 # js ''Pikachu''" by (simp add: js_def)
  have m2: "js ''/data Pikachu'' = 47 # js ''data'' @ 32 # js ''Pikachu''" by (simp add: js_def)
  have s: "js ''/'' = [47]" by (simp add: js_def)
  show "parseCommand demo_server (js ''/dex Pikachu'') False =
     Some \<lparr> d_cmd = js ''dex'', d_cmdToken = js ''/'', d_target = js ''Pikachu'',
            d_fullCmd = js ''dex'', d_handler = Some (Fn \<lparr>h_id = 1, h_broadcastable = True\<rparr>) \<rparr>"
    unfolding m1 s using run_resolved [OF r1] by (simp add: parseCommand_def)
  show "parseCommand demo_server (js ''/data Pikachu'') False =
     Some \<lparr> d_cmd = js ''data'', d_cmdToken = js ''/'', d_target = js ''Pikachu'',
            d_fullCmd = js ''data'', d_handler = Some (Fn \<lparr>h_id = 1, h_broadcastable = True\<rparr>) \<rparr>"
    unfolding m2 s using run_resolved [OF r2] by (simp add: parseCommand_def)
qed

text \<open>
  C6 as stated fails in the fields \<open>cmd\<close> and \<open>fullCmd\<close>: \<open>/dex Pikachu\<close>, where \<open>dex\<close> is
  an alias of \<open>data\<close>, keeps \<open>dex\<close> in both.
\<close>

theorem C6_counterexample:
  "map_of (Chat_commands demo_server) (js ''dex'') = Some (Str (js ''data''))
   \<and> map_option d_cmd (parseCommand demo_server (js ''/dex Pikachu'') False) = Some (js ''dex'')
   \<and> map_option d_cmd (parseCommand demo_server (js ''/data Pikachu'') False) = Some (js ''data'')
   \<and> map_option d_fullCmd (parseCommand demo_server (js ''/dex Pikachu'') False) = Some (js ''dex'')
   \<and> map_option d_fullCmd (parseCommand demo_server (js ''/data Pikachu'') False) = Some (js ''data'')
   \<and> parseCommand demo_server (js ''/dex Pikachu'') False
       \<noteq> parseCommand demo_server (js ''/data Pikachu'') False"
  by (simp add: dex_data server_fields demo_entries) (simp add: js_def)




end
